theory Spec2Isabelle
  imports
    Complex_Main
    "HOL-Library.Word"
    "HOL-Library.Char_ord"
    "HOL-Library.List_Lexorder"
    "HOL-Library.Sublist"
    "HOL-Library.Code_Target_Numeral"
begin

section \<open>Beth Yw? -- the data model, the filters and the importers\<close>

text \<open>
  A shallow embedding of the C++ sources \<^verbatim>\<open>bethyw.cpp\<close>, \<^verbatim>\<open>measure.cpp\<close>,
  \<^verbatim>\<open>area.cpp\<close> and \<^verbatim>\<open>areas.cpp\<close>. A \<^verbatim>\<open>std::string\<close> is a \<^typ>\<open>string\<close> (a list of
  bytes), a \<^verbatim>\<open>std::map\<close> is an association list kept in ascending key order, an
  \<^verbatim>\<open>unsigned int\<close> is a \<^typ>\<open>32 word\<close>, and a C++ exception is a value of the type
  \<open>error\<close> returned next to the state the throwing call leaves behind.
\<close>

subsection \<open>Exceptions\<close>

text \<open>
  The exceptions of the program, by class and \<^verbatim>\<open>what()\<close> message.
  \<open>StdOutOfRange\<close> is a \<^verbatim>\<open>std::out_of_range\<close> raised inside the standard library
  (\<^verbatim>\<open>unordered_map::at\<close>, \<^verbatim>\<open>std::stoul\<close>, \<^verbatim>\<open>std::stod\<close>), whose message the
  library chooses, and \<open>StdInvalidArgument\<close> the \<^verbatim>\<open>std::invalid_argument\<close> of
  \<^verbatim>\<open>std::stoul\<close> and \<^verbatim>\<open>std::stod\<close>; \<open>JsonTypeError\<close> is the JSON library's \<^verbatim>\<open>type_error\<close>;
  \<open>Terminated\<close> is \<^verbatim>\<open>std::terminate\<close>, called when an exception leaves a
  \<^verbatim>\<open>noexcept\<close> function; \<open>Undefined\<close> marks an execution for which C++ defines no
  behaviour (a \<^verbatim>\<open>std::vector\<close> read past its end, a signed overflow).
\<close>

datatype error =
    RuntimeError string
  | OutOfRange string
  | InvalidArgument string
  | StdInvalidArgument
  | StdOutOfRange
  | JsonTypeError
  | Terminated
  | Undefined

text \<open>The outcome of a call that may throw: the exception, if any, and the state left.\<close>

type_synonym 's outcome = "error option \<times> 's"

subsection \<open>String helpers (bethyw.cpp)\<close>

text \<open>\<^verbatim>\<open>::tolower\<close> in the C locale: only the letters A to Z change.\<close>

definition tolower :: "char \<Rightarrow> char" where
  "tolower c =
     (if CHR ''A'' \<le> c \<and> c \<le> CHR ''Z'' then char_of (of_char c + (32::nat)) else c)"

definition stringToLower :: "string \<Rightarrow> string" where
  "stringToLower s = map tolower s"

definition stringVectorToLower :: "string list \<Rightarrow> string list" where
  "stringVectorToLower v = map stringToLower v"

text \<open>
  \<^verbatim>\<open>s.find(t) != std::string::npos\<close>: \<open>t\<close> occurs in \<open>s\<close> as a contiguous block,
  searched from each position of \<open>s\<close> in turn; the empty string occurs everywhere.
\<close>

fun str_contains :: "string \<Rightarrow> string \<Rightarrow> bool" where
  "str_contains [] t = (t = [])"
| "str_contains (c # s) t = (prefix t (c # s) \<or> str_contains s t)"

subsection \<open>The filter evaluator (areas.cpp)\<close>

text \<open>
  A \<^verbatim>\<open>StringFilterSet\<close> is an unordered set of strings; the filter argument is a
  pointer to one, null when absent. The model is an optional list: the elements of the
  set in the order the \<^verbatim>\<open>for\<close> loop of \<^verbatim>\<open>checkFilter\<close> visits them, whatever that is.
\<close>

type_synonym StringFilterSet = "string list"

text \<open>
  The loop of \<^verbatim>\<open>Areas::checkFilter\<close> over the tokens. Each token is copied and
  lowercased; \<^verbatim>\<open>extraSearch\<close> is lowercased in place on every enhanced round.
\<close>

fun checkFilter_loop :: "StringFilterSet \<Rightarrow> string \<Rightarrow> bool \<Rightarrow> string list \<Rightarrow> bool" where
  "checkFilter_loop [] xLowerCase enhancedSearch extraSearch = False"
| "checkFilter_loop (tok # rest) xLowerCase enhancedSearch extraSearch =
     (let it = stringToLower tok in
      if it = xLowerCase then True
      else if enhancedSearch then
        (if str_contains xLowerCase it then True
         else
           (let lowered = stringVectorToLower extraSearch in
            if list_ex (\<lambda>name. str_contains name it) lowered then True
            else checkFilter_loop rest xLowerCase enhancedSearch lowered))
      else checkFilter_loop rest xLowerCase enhancedSearch extraSearch)"

definition checkFilter ::
  "StringFilterSet option \<Rightarrow> string \<Rightarrow> bool \<Rightarrow> string list \<Rightarrow> bool" where
  "checkFilter flt x enhancedSearch extraSearch =
     (case flt of
        None \<Rightarrow> True
      | Some f \<Rightarrow>
          if f = [] then True
          else checkFilter_loop f (stringToLower x) enhancedSearch extraSearch)"

text \<open>
  The difference of two \<^verbatim>\<open>int\<close>, 32 bits wide and read as signed by \<^const>\<open>sint\<close>. C++
  defines it when the mathematical difference is an \<^verbatim>\<open>int\<close>; a signed overflow is
  undefined behaviour.
\<close>

definition int_sub :: "32 word \<Rightarrow> 32 word \<Rightarrow> error + 32 word" where
  "int_sub a b =
     (if - 2147483648 \<le> sint a - sint b \<and> sint a - sint b < 2147483648 then Inr (a - b)
      else Inl Undefined)"

text \<open>
  The year overload. A \<^verbatim>\<open>YearFilterTuple\<close> holds two \<^verbatim>\<open>unsigned int\<close>; the year
  arrives as an \<^verbatim>\<open>int\<close>, and \<^verbatim>\<open>low\<close> and \<^verbatim>\<open>high\<close> are \<^verbatim>\<open>int\<close> copies of the two
  bounds (conversions that keep the 32-bit pattern). The result is that of the
  comparison of the two differences, provided both are defined.
\<close>

type_synonym YearFilterTuple = "32 word \<times> 32 word"

definition checkFilter_year :: "YearFilterTuple option \<Rightarrow> 32 word \<Rightarrow> error + bool" where
  "checkFilter_year flt x =
     (case flt of
        None \<Rightarrow> Inr True
      | Some (lo, hi) \<Rightarrow>
          if (lo, hi) = (0, 0) then Inr True
          else
            (let low = lo; high = hi in
             case int_sub x low of
               Inl e \<Rightarrow> Inl e
             | Inr d \<Rightarrow>
                 (case int_sub high low of
                    Inl e \<Rightarrow> Inl e
                  | Inr w \<Rightarrow> Inr (sint d \<le> sint w))))"

subsection \<open>Containers\<close>

text \<open>
  \<^verbatim>\<open>m[k] = v\<close> on a \<^verbatim>\<open>std::map\<close>: the entry of \<open>k\<close> is replaced, or a new one is put
  at its place in the ascending order of the keys. \<^const>\<open>map_of\<close> is \<^verbatim>\<open>find\<close>.
\<close>

fun map_put :: "'k::linorder \<Rightarrow> 'v \<Rightarrow> ('k \<times> 'v) list \<Rightarrow> ('k \<times> 'v) list" where
  "map_put k v [] = [(k, v)]"
| "map_put k v ((a, b) # m) =
     (if k < a then (k, v) # (a, b) # m
      else if k = a then (k, v) # m
      else (a, b) # map_put k v m)"

text \<open>A loop whose body may throw: the first exception ends it, with the state as it is.\<close>

fun for_each :: "('a \<Rightarrow> 's \<Rightarrow> 's outcome) \<Rightarrow> 'a list \<Rightarrow> 's \<Rightarrow> 's outcome" where
  "for_each body [] s = (None, s)"
| "for_each body (x # xs) s =
     (case body x s of
        (None, s') \<Rightarrow> for_each body xs s'
      | (Some e, s') \<Rightarrow> (Some e, s'))"

subsection \<open>Doubles\<close>

text \<open>
  A \<^verbatim>\<open>double\<close>, as far as the program's arithmetic needs it: a finite value, an
  infinity or a NaN, with the IEEE 754 rules for the three operations of
  \<^verbatim>\<open>getDifference\<close> and \<^verbatim>\<open>getDifferenceAsPercentage\<close>. Finite values are exact reals:
  rounding, overflow to an infinity and the sign of zero are left out (a zero divisor
  counts as \<open>+0\<close>).
\<close>

datatype double = Finite real | PosInf | NegInf | NaN

fun dsub :: "double \<Rightarrow> double \<Rightarrow> double" where
  "dsub NaN y = NaN"
| "dsub x NaN = NaN"
| "dsub (Finite a) (Finite b) = Finite (a - b)"
| "dsub (Finite a) PosInf = NegInf"
| "dsub (Finite a) NegInf = PosInf"
| "dsub PosInf PosInf = NaN"
| "dsub NegInf NegInf = NaN"
| "dsub PosInf y = PosInf"
| "dsub NegInf y = NegInf"

fun ddiv :: "double \<Rightarrow> double \<Rightarrow> double" where
  "ddiv NaN y = NaN"
| "ddiv x NaN = NaN"
| "ddiv (Finite a) (Finite b) =
     (if b \<noteq> 0 then Finite (a / b)
      else if a = 0 then NaN
      else if 0 < a then PosInf
      else NegInf)"
| "ddiv (Finite a) y = Finite 0"
| "ddiv PosInf (Finite b) = (if b < 0 then NegInf else PosInf)"
| "ddiv NegInf (Finite b) = (if b < 0 then PosInf else NegInf)"
| "ddiv x y = NaN"

fun dmul :: "double \<Rightarrow> double \<Rightarrow> double" where
  "dmul NaN y = NaN"
| "dmul x NaN = NaN"
| "dmul (Finite a) (Finite b) = Finite (a * b)"
| "dmul (Finite a) PosInf = (if a = 0 then NaN else if 0 < a then PosInf else NegInf)"
| "dmul (Finite a) NegInf = (if a = 0 then NaN else if 0 < a then NegInf else PosInf)"
| "dmul PosInf (Finite b) = (if b = 0 then NaN else if 0 < b then PosInf else NegInf)"
| "dmul NegInf (Finite b) = (if b = 0 then NaN else if 0 < b then NegInf else PosInf)"
| "dmul PosInf PosInf = PosInf"
| "dmul NegInf NegInf = PosInf"
| "dmul x y = NegInf"

subsection \<open>Measure (measure.cpp)\<close>

record Measure =
  codename :: string
  label :: string
  mvalues :: "(32 word \<times> double) list"

text \<open>The constructor lowercases the codename; the values start empty.\<close>

definition new_Measure :: "string \<Rightarrow> string \<Rightarrow> Measure" where
  "new_Measure c l = \<lparr>codename = stringToLower c, label = l, mvalues = []\<rparr>"

definition setValue :: "32 word \<Rightarrow> double \<Rightarrow> Measure \<Rightarrow> Measure" where
  "setValue year v m = m\<lparr>mvalues := map_put year v (mvalues m)\<rparr>"

definition Measure_size :: "Measure \<Rightarrow> nat" where
  "Measure_size m = length (mvalues m)"

text \<open>
  \<^verbatim>\<open>values.begin()\<close> is the first entry of the ordered map and \<^verbatim>\<open>values.rbegin()\<close> the
  last; both exist when the size is at least two.
\<close>

definition getDifference :: "Measure \<Rightarrow> double" where
  "getDifference m =
     (if Measure_size m < 2 then Finite 0
      else dsub (snd (last (mvalues m))) (snd (hd (mvalues m))))"

definition getDifferenceAsPercentage :: "Measure \<Rightarrow> double" where
  "getDifferenceAsPercentage m =
     (if Measure_size m < 2 then Finite 0
      else dmul (ddiv (getDifference m) (snd (hd (mvalues m)))) (Finite 100))"

text \<open>\<^verbatim>\<open>operator+=(Measure&, const Measure&)\<close>.\<close>

definition measure_merge :: "Measure \<Rightarrow> Measure \<Rightarrow> Measure" where
  "measure_merge lhs rhs =
     fold (\<lambda>(year, v). setValue year v) (mvalues rhs) (lhs\<lparr>label := label rhs\<rparr>)"

subsection \<open>Area (area.cpp)\<close>

record Area =
  localAuthorityCode :: string
  names :: "(string \<times> string) list"
  measures :: "(string \<times> Measure) list"

definition new_Area :: "string \<Rightarrow> Area" where
  "new_Area code = \<lparr>localAuthorityCode = code, names = [], measures = []\<rparr>"

definition getName :: "string \<Rightarrow> Area \<Rightarrow> error + string" where
  "getName lang a =
     (let l = stringToLower lang in
      case map_of (names a) l of
        None \<Rightarrow> Inl (OutOfRange (''Area name with the language '' @ l @ ''could not be found!''))
      | Some n \<Rightarrow> Inr n)"

text \<open>
  \<^verbatim>\<open>std::regex_match\<close> against \<^verbatim>\<open>^[a-zA-Z]{3}$\<close>: the whole string is three
  characters, each an ASCII letter.
\<close>

definition is_letter :: "char \<Rightarrow> bool" where
  "is_letter c \<longleftrightarrow>
     (CHR ''a'' \<le> c \<and> c \<le> CHR ''z'') \<or> (CHR ''A'' \<le> c \<and> c \<le> CHR ''Z'')"

definition languageMatch :: "string \<Rightarrow> bool" where
  "languageMatch lang \<longleftrightarrow> length lang = 3 \<and> list_all is_letter lang"

definition setName :: "string \<Rightarrow> string \<Rightarrow> Area \<Rightarrow> Area outcome" where
  "setName lang name a =
     (if \<not> languageMatch lang then
        (Some (InvalidArgument
           ''Area::setName: Language code must be three alphabetical letters only''), a)
      else (None, a\<lparr>names := map_put (stringToLower lang) name (names a)\<rparr>))"

definition getMeasure :: "string \<Rightarrow> Area \<Rightarrow> error + Measure" where
  "getMeasure key a =
     (let c = stringToLower key in
      case map_of (measures a) c of
        None \<Rightarrow> Inl (OutOfRange (''No measure found matching '' @ c))
      | Some m \<Rightarrow> Inr m)"

text \<open>
  \<^verbatim>\<open>Area::setMeasure\<close> is \<^verbatim>\<open>noexcept\<close>: were \<^verbatim>\<open>getMeasure\<close> to throw, the program
  would be terminated. \<^verbatim>\<open>getMeasure(codename) += measure\<close> updates the entry that
  \<^verbatim>\<open>getMeasure\<close> found, the one of the codename lowercased once more.
\<close>

definition setMeasure :: "string \<Rightarrow> Measure \<Rightarrow> Area \<Rightarrow> Area outcome" where
  "setMeasure key msr a =
     (let c = stringToLower key in
      if map_of (measures a) c \<noteq> None then
        (case getMeasure c a of
           Inl e \<Rightarrow> (Some Terminated, a)
         | Inr m \<Rightarrow>
             (None, a\<lparr>measures :=
                map_put (stringToLower c) (measure_merge m msr) (measures a)\<rparr>))
      else (None, a\<lparr>measures := map_put c msr (measures a)\<rparr>))"

definition Area_size :: "Area \<Rightarrow> nat" where
  "Area_size a = length (measures a)"

text \<open>\<^verbatim>\<open>operator+=(Area&, const Area&)\<close>: the names first, then the measures.\<close>

definition area_merge :: "Area \<Rightarrow> Area \<Rightarrow> Area outcome" where
  "area_merge lhs rhs =
     (case for_each (\<lambda>(l, n). setName l n) (names rhs) lhs of
        (Some e, a) \<Rightarrow> (Some e, a)
      | (None, a) \<Rightarrow> for_each (\<lambda>(c, m). setMeasure c m) (measures rhs) a)"

subsection \<open>Areas: the container (areas.cpp)\<close>

type_synonym Areas = "(string \<times> Area) list"

definition getArea :: "string \<Rightarrow> Areas \<Rightarrow> error + Area" where
  "getArea code areas =
     (case map_of areas code of
        None \<Rightarrow> Inl (OutOfRange (''No area found matching '' @ code))
      | Some a \<Rightarrow> Inr a)"

text \<open>
  \<^verbatim>\<open>Areas::setArea\<close> merges into the Area stored under the code, in place, or inserts.
  It is \<^verbatim>\<open>noexcept\<close>: an exception of \<^verbatim>\<open>getArea\<close> or of the merge terminates the
  program, with the stored Area as far as the merge got.
\<close>

definition setArea :: "string \<Rightarrow> Area \<Rightarrow> Areas \<Rightarrow> Areas outcome" where
  "setArea code area areas =
     (if map_of areas code \<noteq> None then
        (case getArea code areas of
           Inl e \<Rightarrow> (Some Terminated, areas)
         | Inr existing \<Rightarrow>
             (case area_merge existing area of
                (None, merged) \<Rightarrow> (None, map_put code merged areas)
              | (Some e, partial) \<Rightarrow> (Some Terminated, map_put code partial areas)))
      else (None, map_put code area areas))"

definition Areas_size :: "Areas \<Rightarrow> nat" where
  "Areas_size areas = length areas"

definition getExistingNames :: "string \<Rightarrow> Areas \<Rightarrow> string list" where
  "getExistingNames code areas =
     (if map_of areas code \<noteq> None then
        (case getArea code areas of
           Inl e \<Rightarrow> []
         | Inr existingArea \<Rightarrow> map snd (names existingArea))
      else [])"

subsection \<open>Streams and the standard library's parsers\<close>

text \<open>
  An input stream: its three state flags and the characters not yet read.
  \<^verbatim>\<open>is.good()\<close> holds when no flag is set.
\<close>

record istream =
  eofbit :: bool
  failbit :: bool
  badbit :: bool
  buf :: string

definition good :: "istream \<Rightarrow> bool" where
  "good strm \<longleftrightarrow> \<not> eofbit strm \<and> \<not> failbit strm \<and> \<not> badbit strm"

text \<open>
  \<^verbatim>\<open>while (getline(in, cell, d))\<close> on a good stream holding \<open>s\<close>: the cells the loop
  sees. \<^verbatim>\<open>getline\<close> fails when no character is left; otherwise it takes the
  characters up to the next delimiter and skips that delimiter. So a text that ends in
  a delimiter has no empty cell after it.
\<close>

function getlines :: "char \<Rightarrow> string \<Rightarrow> string list" where
  "getlines d s =
     (if s = [] then []
      else takeWhile (\<lambda>c. c \<noteq> d) s # getlines d (drop 1 (dropWhile (\<lambda>c. c \<noteq> d) s)))"
  by pat_completeness auto
termination
proof (relation "measure (\<lambda>(d, s). length s)")
  show "wf (measure (\<lambda>(d, s). length s))" by simp
next
  fix d :: char and s :: string
  assume nonempty: "s \<noteq> []"
  have "length (dropWhile (\<lambda>c. c \<noteq> d) s) \<le> length s"
    by (rule length_dropWhile_le)
  with nonempty have "length (drop 1 (dropWhile (\<lambda>c. c \<noteq> d) s)) < length s"
    by (cases s) auto
  then show "((d, drop 1 (dropWhile (\<lambda>c. c \<noteq> d) s)), (d, s)) \<in> measure (\<lambda>(d, s). length s)"
    by simp
qed

declare getlines.simps [simp del]

definition isspace :: "char \<Rightarrow> bool" where
  "isspace c \<longleftrightarrow> c = CHR '' '' \<or> (CHR 0x09 \<le> c \<and> c \<le> CHR 0x0D)"

definition isdigit :: "char \<Rightarrow> bool" where
  "isdigit c \<longleftrightarrow> CHR ''0'' \<le> c \<and> c \<le> CHR ''9''"

definition strip_sign :: "string \<Rightarrow> bool \<times> string" where
  "strip_sign s =
     (case s of
        [] \<Rightarrow> (False, [])
      | c # r \<Rightarrow>
          if c = CHR ''-'' then (True, r)
          else if c = CHR ''+'' then (False, r)
          else (False, s))"

definition digits_value :: "string \<Rightarrow> nat" where
  "digits_value ds = foldl (\<lambda>a c. 10 * a + (of_char c - 48)) 0 ds"

text \<open>
  \<^verbatim>\<open>std::stoul(s)\<close>, base 10, with a 64-bit \<^verbatim>\<open>unsigned long\<close>: white space, an optional
  sign, then digits; text after the digits is ignored. No digit is
  \<^verbatim>\<open>std::invalid_argument\<close>, a magnitude beyond \<open>2^64 - 1\<close> is \<^verbatim>\<open>std::out_of_range\<close>,
  and a minus sign negates modulo \<open>2^64\<close>.
\<close>

definition ULONG_MAX :: nat where
  "ULONG_MAX = 18446744073709551615"

definition stoul :: "string \<Rightarrow> error + nat" where
  "stoul s =
     (let (neg, r) = strip_sign (dropWhile isspace s);
          ds = takeWhile isdigit r
      in if ds = [] then Inl StdInvalidArgument
         else
           (let v = digits_value ds
            in if ULONG_MAX < v then Inl StdOutOfRange
               else Inr (if neg then (ULONG_MAX + 1 - v) mod (ULONG_MAX + 1) else v)))"

text \<open>
  \<^verbatim>\<open>std::stod(s)\<close> converts when, after white space and an optional sign, the text
  starts with a digit, with a point and a digit, or with \<^verbatim>\<open>inf\<close> or \<^verbatim>\<open>nan\<close> in any
  letter case; otherwise it raises \<^verbatim>\<open>std::invalid_argument\<close>. The value of a text that
  converts is the parameter \<open>sv\<close> (what \<^verbatim>\<open>strtod\<close> returns), \<open>None\<close> when \<^verbatim>\<open>strtod\<close>
  reports a range error, which \<^verbatim>\<open>std::stod\<close> raises as \<^verbatim>\<open>std::out_of_range\<close>.
\<close>

definition strtod_converts :: "string \<Rightarrow> bool" where
  "strtod_converts s =
     (let (neg, r) = strip_sign (dropWhile isspace s)
      in case r of
           [] \<Rightarrow> False
         | c # r' \<Rightarrow>
             isdigit c
             \<or> (c = CHR ''.'' \<and> (case r' of [] \<Rightarrow> False | d # r'' \<Rightarrow> isdigit d))
             \<or> stringToLower (take 3 r) = ''inf''
             \<or> stringToLower (take 3 r) = ''nan'')"

definition stod :: "(string \<Rightarrow> double option) \<Rightarrow> string \<Rightarrow> error + double" where
  "stod sv s =
     (if \<not> strtod_converts s then Inl StdInvalidArgument
      else case sv s of None \<Rightarrow> Inl StdOutOfRange | Some v \<Rightarrow> Inr v)"

subsection \<open>Column mappings and data types (datasets.h)\<close>

text \<open>
  Modelled from the spec: \<^verbatim>\<open>datasets.h\<close> is not among the sources. The tags are the
  field tags of the spec's column mapping, under the names \<^verbatim>\<open>areas.cpp\<close> uses; a
  mapping is an \<^verbatim>\<open>std::unordered_map\<close> from tags to strings, here an association
  list read by its first entry for a tag, and \<^verbatim>\<open>size()\<close> counts the tags. The data
  types are the three \<^verbatim>\<open>populate\<close> dispatches on, and one for any other value.
\<close>

datatype SourceColumn =
    AUTH_CODE | AUTH_NAME_ENG | AUTH_NAME_CYM
  | MEASURE_CODE | MEASURE_NAME
  | SINGLE_MEASURE_CODE | SINGLE_MEASURE_NAME
  | YEAR | VALUE

type_synonym SourceColumnMapping = "(SourceColumn \<times> string) list"

definition cols_size :: "SourceColumnMapping \<Rightarrow> nat" where
  "cols_size cols = length (remdups (map fst cols))"

definition cols_at :: "SourceColumnMapping \<Rightarrow> SourceColumn \<Rightarrow> error + string" where
  "cols_at cols k = (case map_of cols k of None \<Rightarrow> Inl StdOutOfRange | Some v \<Rightarrow> Inr v)"

datatype SourceDataType = AuthorityCodeCSV | WelshStatsJSON | AuthorityByYearCSV | OtherDataType

subsection \<open>The authority-code table (areas.cpp)\<close>

text \<open>The body of the row loop of \<^verbatim>\<open>populateFromAuthorityCodeCSV\<close>.\<close>

definition authorityCode_row :: "StringFilterSet option \<Rightarrow> string \<Rightarrow> Areas \<Rightarrow> Areas outcome" where
  "authorityCode_row areasFilter line areas =
     (let areaData = getlines CHR '','' line in
      if length areaData < 3 then (Some (RuntimeError ''Malformed file!''), areas)
      else if checkFilter areasFilter (areaData ! 0) True [areaData ! 1, areaData ! 2] then
        (case setName ''eng'' (areaData ! 1) (new_Area (areaData ! 0)) of
           (Some e, a) \<Rightarrow> (Some e, areas)
         | (None, area) \<Rightarrow>
             (case setName ''cym'' (areaData ! 2) area of
                (Some e, a) \<Rightarrow> (Some e, areas)
              | (None, area') \<Rightarrow> setArea (areaData ! 0) area' areas))
      else (None, areas))"

text \<open>The importer, on the characters of a good stream.\<close>

definition populateFromAuthorityCodeCSV ::
  "string \<Rightarrow> SourceColumnMapping \<Rightarrow> StringFilterSet option \<Rightarrow> Areas \<Rightarrow> Areas outcome" where
  "populateFromAuthorityCodeCSV content cols areasFilter areas =
     (case getlines CHR 0x0A content of
        [] \<Rightarrow> (Some (RuntimeError ''Malformed file!''), areas)
      | line # rows \<Rightarrow>
          (let fileCols = getlines CHR '','' line in
           if length fileCols \<noteq> cols_size cols then
             (Some (OutOfRange ''Cols length mismatch!''), areas)
           else for_each (authorityCode_row areasFilter) rows areas))"

subsection \<open>The nested-record format (areas.cpp)\<close>

text \<open>
  Modelled from the spec: the JSON library \<^verbatim>\<open>lib_json.hpp\<close> is not among the sources.
  The spec has a document with a top-level key that holds a list of flat records, whose
  value field is a number or a numeric string. A document is a tree of values here, and
  the importer uses four operations of the library on it:
  \<^verbatim>\<open>data[key]\<close>, which on an object gives the member (null when absent), on null gives
  null, and on any other value raises a type error; \<^verbatim>\<open>items()\<close>, which runs through the
  elements of an array or the members of an object, through nothing for null and through
  the value itself otherwise; and the conversions to \<^verbatim>\<open>std::string\<close> and to \<^verbatim>\<open>double\<close>,
  which raise a type error unless the value is a string, respectively a number. The
  parser \<^verbatim>\<open>is >> j\<close> is a parameter of the importer, \<open>None\<close> when it throws.
\<close>

datatype json =
    JNull
  | JBool bool
  | JNumber double
  | JString string
  | JArray "json list"
  | JObject "(string \<times> json) list"

fun json_index :: "json \<Rightarrow> string \<Rightarrow> error + json" where
  "json_index (JObject kvs) key = Inr (case map_of kvs key of None \<Rightarrow> JNull | Some v \<Rightarrow> v)"
| "json_index JNull key = Inr JNull"
| "json_index j key = Inl JsonTypeError"

fun json_items :: "json \<Rightarrow> json list" where
  "json_items (JArray xs) = xs"
| "json_items (JObject kvs) = map snd kvs"
| "json_items JNull = []"
| "json_items j = [j]"

fun json_string :: "json \<Rightarrow> error + string" where
  "json_string (JString s) = Inr s"
| "json_string j = Inl JsonTypeError"

fun json_double :: "json \<Rightarrow> error + double" where
  "json_double (JNumber d) = Inr d"
| "json_double j = Inl JsonTypeError"

text \<open>Sequencing of calls that may throw a value-less exception.\<close>

definition and_then :: "error + 'a \<Rightarrow> ('a \<Rightarrow> error + 'b) \<Rightarrow> error + 'b" where
  "and_then r f = (case r of Inl e \<Rightarrow> Inl e | Inr x \<Rightarrow> f x)"

text \<open>\<^verbatim>\<open>data[cols.at(tag)]\<close> converted to a \<^verbatim>\<open>std::string\<close>.\<close>

definition string_field :: "SourceColumnMapping \<Rightarrow> json \<Rightarrow> SourceColumn \<Rightarrow> error + string" where
  "string_field cols data tag =
     and_then (cols_at cols tag) (\<lambda>key. and_then (json_index data key) json_string)"

text \<open>
  The year: \<^verbatim>\<open>std::stoul\<close> of the year field, stored in an \<^verbatim>\<open>unsigned int\<close>; an
  \<^verbatim>\<open>std::invalid_argument\<close> becomes the runtime error \<^verbatim>\<open>Malformed file!\<close>.
\<close>

definition parse_year :: "string \<Rightarrow> error + 32 word" where
  "parse_year yearString =
     (case stoul yearString of
        Inl StdInvalidArgument \<Rightarrow> Inl (RuntimeError ''Malformed file!'')
      | Inl e \<Rightarrow> Inl e
      | Inr v \<Rightarrow> Inr (of_nat v))"

text \<open>
  A cell or field read by \<^verbatim>\<open>std::stod\<close>, with the same handler for
  \<^verbatim>\<open>std::invalid_argument\<close>.
\<close>

definition parse_value :: "(string \<Rightarrow> double option) \<Rightarrow> string \<Rightarrow> error + double" where
  "parse_value sv valueString =
     (case stod sv valueString of
        Inl StdInvalidArgument \<Rightarrow> Inl (RuntimeError ''Malformed file!'')
      | Inl e \<Rightarrow> Inl e
      | Inr v \<Rightarrow> Inr v)"

text \<open>
  The value field: the conversion to \<^verbatim>\<open>double\<close>, and in the handler of its type
  error the conversion to a string and \<^verbatim>\<open>std::stod\<close>.
\<close>

definition value_field ::
  "(string \<Rightarrow> double option) \<Rightarrow> SourceColumnMapping \<Rightarrow> json \<Rightarrow> error + double" where
  "value_field sv cols data =
     (case and_then (cols_at cols VALUE) (\<lambda>key. and_then (json_index data key) json_double) of
        Inl JsonTypeError \<Rightarrow> and_then (string_field cols data VALUE) (parse_value sv)
      | r \<Rightarrow> r)"

text \<open>
  The outer handler of the record's \<^verbatim>\<open>try\<close> block: every \<^verbatim>\<open>std::out_of_range\<close> is
  thrown again as \<^verbatim>\<open>Not enough cols!\<close>.
\<close>

fun not_enough_cols :: "error \<Rightarrow> error" where
  "not_enough_cols StdOutOfRange = OutOfRange ''Not enough cols!''"
| "not_enough_cols (OutOfRange msg) = OutOfRange ''Not enough cols!''"
| "not_enough_cols e = e"

text \<open>The \<^verbatim>\<open>try\<close> block: the six fields of a record, in the order the source reads them.\<close>

definition record_fields ::
  "(string \<Rightarrow> double option) \<Rightarrow> SourceColumnMapping \<Rightarrow> json \<Rightarrow>
     error + (string \<times> string \<times> string \<times> string \<times> 32 word \<times> double)" where
  "record_fields sv cols data =
     (case
        and_then (string_field cols data AUTH_CODE) (\<lambda>authCode.
        and_then (string_field cols data AUTH_NAME_ENG) (\<lambda>areaName.
        and_then
          (if map_of cols MEASURE_CODE \<noteq> None then
             and_then (string_field cols data MEASURE_CODE) (\<lambda>measureCode.
             and_then (string_field cols data MEASURE_NAME) (\<lambda>measureName.
             Inr (measureCode, measureName)))
           else
             and_then (cols_at cols SINGLE_MEASURE_CODE) (\<lambda>measureCode.
             and_then (cols_at cols SINGLE_MEASURE_NAME) (\<lambda>measureName.
             Inr (measureCode, measureName))))
          (\<lambda>(measureCode, measureName).
        and_then (string_field cols data YEAR) (\<lambda>yearString.
        and_then (parse_year yearString) (\<lambda>year.
        and_then (value_field sv cols data) (\<lambda>v.
        Inr (authCode, areaName, measureCode, measureName, year, v)))))))
      of
        Inl e \<Rightarrow> Inl (not_enough_cols e)
      | Inr fs \<Rightarrow> Inr fs)"

text \<open>The body of the record loop of \<^verbatim>\<open>populateFromWelshStatsJSON\<close>.\<close>

definition welshStats_record ::
  "(string \<Rightarrow> double option) \<Rightarrow> SourceColumnMapping \<Rightarrow> StringFilterSet option \<Rightarrow>
     StringFilterSet option \<Rightarrow> YearFilterTuple option \<Rightarrow> json \<Rightarrow> Areas \<Rightarrow> Areas outcome" where
  "welshStats_record sv cols areasFilter measuresFilter yearsFilter data areas =
     (case record_fields sv cols data of
        Inl e \<Rightarrow> (Some e, areas)
      | Inr (authCode, areaName, measureCode, measureName, year, v) \<Rightarrow>
          (let existingNames = getExistingNames authCode areas @ [areaName] in
           if checkFilter areasFilter authCode True existingNames then
             (case setName ''eng'' areaName (new_Area authCode) of
                (Some e, a) \<Rightarrow> (Some e, areas)
              | (None, area) \<Rightarrow>
                  (case
                     (if checkFilter measuresFilter measureCode False [] then
                        (let msr = new_Measure measureCode measureName in
                         case checkFilter_year yearsFilter year of
                           Inl e \<Rightarrow> (Some e, area)
                         | Inr inRange \<Rightarrow>
                             setMeasure measureCode
                               (if inRange then setValue year v msr else msr) area)
                      else (None, area))
                   of
                     (Some e, a) \<Rightarrow> (Some e, areas)
                   | (None, area') \<Rightarrow> setArea authCode area' areas))
           else (None, areas)))"

definition populateFromWelshStatsJSON ::
  "(string \<Rightarrow> json option) \<Rightarrow> (string \<Rightarrow> double option) \<Rightarrow> string \<Rightarrow> SourceColumnMapping \<Rightarrow>
     StringFilterSet option \<Rightarrow> StringFilterSet option \<Rightarrow> YearFilterTuple option \<Rightarrow>
     Areas \<Rightarrow> Areas outcome" where
  "populateFromWelshStatsJSON parse sv content cols areasFilter measuresFilter yearsFilter areas =
     (case parse content of
        None \<Rightarrow> (Some (RuntimeError ''Malformed file!''), areas)
      | Some j \<Rightarrow>
          (case json_index j ''value'' of
             Inl e \<Rightarrow> (Some e, areas)
           | Inr records \<Rightarrow>
               for_each (welshStats_record sv cols areasFilter measuresFilter yearsFilter)
                 (json_items records) areas))"

subsection \<open>The authority-by-year wide table (areas.cpp)\<close>

text \<open>
  The loop \<^verbatim>\<open>for (i = 1; i < data.size(); i++)\<close> over the cells of a row, \<open>hs\<close> being
  the header from its column \<open>i\<close> on and \<open>cs\<close> the row from its cell \<open>i\<close> on. The loop
  ends with the row; a row longer than the header reads \<^verbatim>\<open>fileCols[i]\<close> past the end of
  the vector.
\<close>

fun year_cells ::
  "(string \<Rightarrow> double option) \<Rightarrow> YearFilterTuple option \<Rightarrow> string list \<Rightarrow> string list \<Rightarrow>
     Measure \<Rightarrow> error + Measure" where
  "year_cells sv yearsFilter hs [] msr = Inr msr"
| "year_cells sv yearsFilter [] (c # cs) msr = Inl Undefined"
| "year_cells sv yearsFilter (h # hs) (c # cs) msr =
     (case parse_year h of
        Inl e \<Rightarrow> Inl e
      | Inr year \<Rightarrow>
          (case checkFilter_year yearsFilter year of
             Inl e \<Rightarrow> Inl e
           | Inr inRange \<Rightarrow>
               if inRange then
                 (case parse_value sv c of
                    Inl e \<Rightarrow> Inl e
                  | Inr v \<Rightarrow> year_cells sv yearsFilter hs cs (setValue year v msr))
               else year_cells sv yearsFilter hs cs msr))"

text \<open>
  The body of the row loop of \<^verbatim>\<open>populateFromAuthorityByYearCSV\<close>. An empty line gives
  an empty vector, whose \<^verbatim>\<open>data[0]\<close> is read all the same.
\<close>

definition authorityByYear_row ::
  "(string \<Rightarrow> double option) \<Rightarrow> SourceColumnMapping \<Rightarrow> StringFilterSet option \<Rightarrow>
     StringFilterSet option \<Rightarrow> YearFilterTuple option \<Rightarrow> string list \<Rightarrow> string \<Rightarrow>
     Areas \<Rightarrow> Areas outcome" where
  "authorityByYear_row sv cols areasFilter measuresFilter yearsFilter fileCols line areas =
     (case getlines CHR '','' line of
        [] \<Rightarrow> (Some Undefined, areas)
      | code # cells \<Rightarrow>
          if checkFilter areasFilter code True (getExistingNames code areas) then
            (case cols_at cols SINGLE_MEASURE_CODE of
               Inl e \<Rightarrow> (Some e, areas)
             | Inr measureCode \<Rightarrow>
                 if checkFilter measuresFilter measureCode False [] then
                   (case cols_at cols SINGLE_MEASURE_NAME of
                      Inl e \<Rightarrow> (Some e, areas)
                    | Inr measureName \<Rightarrow>
                        (case year_cells sv yearsFilter (tl fileCols) cells
                                (new_Measure measureCode measureName) of
                           Inl e \<Rightarrow> (Some e, areas)
                         | Inr msr \<Rightarrow>
                             (case setMeasure measureCode msr (new_Area code) of
                                (Some e, a) \<Rightarrow> (Some e, areas)
                              | (None, area) \<Rightarrow> setArea code area areas)))
                 else setArea code (new_Area code) areas)
          else (None, areas))"

definition populateFromAuthorityByYearCSV ::
  "(string \<Rightarrow> double option) \<Rightarrow> string \<Rightarrow> SourceColumnMapping \<Rightarrow> StringFilterSet option \<Rightarrow>
     StringFilterSet option \<Rightarrow> YearFilterTuple option \<Rightarrow> Areas \<Rightarrow> Areas outcome" where
  "populateFromAuthorityByYearCSV sv content cols areasFilter measuresFilter yearsFilter areas =
     (case getlines CHR 0x0A content of
        [] \<Rightarrow> (Some (RuntimeError ''Malformed file!''), areas)
      | line # rows \<Rightarrow>
          (let fileCols = getlines CHR '','' line in
           if cols_size cols \<noteq> 3 then (Some (OutOfRange ''Cols length mismatch!''), areas)
           else
             (case fileCols of
                [] \<Rightarrow> (Some Undefined, areas)
              | first # others \<Rightarrow>
                  (case cols_at cols AUTH_CODE of
                     Inl e \<Rightarrow> (Some e, areas)
                   | Inr tag \<Rightarrow>
                       if first \<noteq> tag then (Some (RuntimeError ''Malformed file!''), areas)
                       else
                         for_each
                           (authorityByYear_row sv cols areasFilter measuresFilter yearsFilter
                              fileCols)
                           rows areas))))"

subsection \<open>populate (areas.cpp)\<close>

text \<open>
  \<^verbatim>\<open>Areas::populate\<close> with the three filters: the check of the stream, then the
  importer of the data type, run on the characters the stream holds.
\<close>

definition populate ::
  "(string \<Rightarrow> json option) \<Rightarrow> (string \<Rightarrow> double option) \<Rightarrow> istream \<Rightarrow> SourceDataType \<Rightarrow>
     SourceColumnMapping \<Rightarrow> StringFilterSet option \<Rightarrow> StringFilterSet option \<Rightarrow>
     YearFilterTuple option \<Rightarrow> Areas \<Rightarrow> Areas outcome" where
  "populate parse sv strm type cols areasFilter measuresFilter yearsFilter areas =
     (if \<not> good strm then (Some (RuntimeError ''Input stream is not good!''), areas)
      else
        (case type of
           AuthorityCodeCSV \<Rightarrow> populateFromAuthorityCodeCSV (buf strm) cols areasFilter areas
         | WelshStatsJSON \<Rightarrow>
             populateFromWelshStatsJSON parse sv (buf strm) cols areasFilter measuresFilter
               yearsFilter areas
         | AuthorityByYearCSV \<Rightarrow>
             populateFromAuthorityByYearCSV sv (buf strm) cols areasFilter measuresFilter
               yearsFilter areas
         | OtherDataType \<Rightarrow> (Some (RuntimeError ''Areas::populate: Unexpected data type''), areas)))"

subsection \<open>Representation invariants\<close>

text \<open>
  An \<^verbatim>\<open>std::map\<close> holds its keys once each, in ascending order. The names of an Area
  are entered by \<^verbatim>\<open>setName\<close> only, so their keys are language codes of three
  lowercase letters; its measures are entered by \<^verbatim>\<open>setMeasure\<close> only, under lowercase
  keys.
\<close>

definition ordered_keys :: "('k::linorder \<times> 'v) list \<Rightarrow> bool" where
  "ordered_keys m \<longleftrightarrow> sorted_wrt (<) (map fst m)"

definition Area_inv :: "Area \<Rightarrow> bool" where
  "Area_inv a \<longleftrightarrow>
     ordered_keys (names a) \<and>
     list_all (\<lambda>(l, n). languageMatch l \<and> stringToLower l = l) (names a) \<and>
     ordered_keys (measures a) \<and>
     list_all (\<lambda>(c, m). stringToLower c = c) (measures a)"

text \<open>
  What merging leaves under a key of the measure map: the incoming measure, merged into
  the existing one if there is one.
\<close>

definition merge_entry :: "Measure option \<Rightarrow> Measure option \<Rightarrow> Measure option" where
  "merge_entry old new =
     (case new of
        None \<Rightarrow> old
      | Some m \<Rightarrow> (case old of None \<Rightarrow> Some m | Some m0 \<Rightarrow> Some (measure_merge m0 m)))"

subsection \<open>Example inputs\<close>

text \<open>
  Inputs for the concrete instances below: a stand-in for \<^verbatim>\<open>strtod\<close> that reads an
  unsigned decimal integer, column mappings for the three formats, a record of the
  nested format for a given area code and year, and a parser that returns a document
  of given records.
\<close>

definition example_sv :: "string \<Rightarrow> double option" where
  "example_sv s = Some (Finite (real (digits_value (takeWhile isdigit s))))"

definition example_areas_cols :: SourceColumnMapping where
  "example_areas_cols =
     [(AUTH_CODE, ''code''), (AUTH_NAME_ENG, ''eng''), (AUTH_NAME_CYM, ''cym'')]"

definition example_json_cols :: SourceColumnMapping where
  "example_json_cols =
     [(AUTH_CODE, ''code''), (AUTH_NAME_ENG, ''name''), (MEASURE_CODE, ''mc''),
      (MEASURE_NAME, ''mn''), (YEAR, ''year''), (VALUE, ''data'')]"

definition example_year_cols :: SourceColumnMapping where
  "example_year_cols =
     [(AUTH_CODE, ''code''), (SINGLE_MEASURE_CODE, ''pop''),
      (SINGLE_MEASURE_NAME, ''Population'')]"

definition example_record :: "string \<Rightarrow> string \<Rightarrow> json" where
  "example_record code year =
     JObject [(''code'', JString code), (''name'', JString ''Foo''), (''mc'', JString ''Pop''),
              (''mn'', JString ''Population''), (''year'', JString year),
              (''data'', JNumber (Finite 5))]"

definition example_parse :: "json list \<Rightarrow> string \<Rightarrow> json option" where
  "example_parse records s = Some (JObject [(''value'', JArray records)])"

section \<open>Properties\<close>

subsection \<open>Helper facts\<close>

lemma map_of_map_put: "map_of (map_put k v m) = (map_of m)(k \<mapsto> v)"
  by (induction m) (auto simp: fun_eq_iff)

lemma tolower_idem: "tolower (tolower c) = tolower c"
  by (auto simp: tolower_def less_eq_char_def)

lemma stringToLower_idem: "stringToLower (stringToLower s) = stringToLower s"
  by (simp add: stringToLower_def tolower_idem)

text \<open>Rules that evaluate the lowercasing of a string literal.\<close>

lemmas lower_eval = stringToLower_def stringVectorToLower_def tolower_def char_of_def
  bit_Suc_0_iff

text \<open>\<^const>\<open>str_contains\<close> is the substring relation of the library.\<close>

lemma str_contains_iff: "str_contains s t \<longleftrightarrow> sublist t s"
  by (induction s) (auto simp: sublist_Cons_right)

lemma checkFilter_loop_iff:
  "checkFilter_loop f x e extra \<longleftrightarrow>
     (\<exists>t \<in> set f. stringToLower t = x \<or>
        (e \<and> (sublist (stringToLower t) x \<or>
              (\<exists>n \<in> set extra. sublist (stringToLower t) (stringToLower n)))))"
proof (induction f arbitrary: extra)
  case Nil
  then show ?case by simp
next
  case (Cons tok rest)
  show ?case
  proof (cases "stringToLower tok = x")
    case True
    then show ?thesis by (simp add: Let_def)
  next
    case neq: False
    show ?thesis
    proof (cases e)
      case False
      with neq Cons.IH [of extra] show ?thesis by (simp add: Let_def)
    next
      case True
      with neq Cons.IH [of "stringVectorToLower extra"] show ?thesis
        by (simp add: Let_def str_contains_iff list_ex_iff stringVectorToLower_def
            stringToLower_idem)
    qed
  qed
qed

subsection \<open>The year filter\<close>

text \<open>
  A difference that is defined is the mathematical one, so where the year filter is
  defined it is the test against the upper bound alone.
\<close>

lemma int_sub_value:
  assumes "int_sub a b = Inr d"
  shows "sint d = sint a - sint b"
proof -
  from assms have range: "- 2147483648 \<le> sint a - sint b" "sint a - sint b < 2147483648"
    and d: "d = a - b"
    by (auto simp: int_sub_def split: if_splits)
  have "sint (a - b) = signed_take_bit 31 (sint a - sint b)"
    by (simp add: sint_word_ariths)
  also from range have "\<dots> = sint a - sint b"
    by (simp add: signed_take_bit_int_eq_self_iff)
  finally show ?thesis using d by simp
qed

lemma checkFilter_year_upper_bound_only:
  assumes "checkFilter_year (Some (lo, hi)) x = Inr b" and "(lo, hi) \<noteq> (0, 0)"
  shows "b \<longleftrightarrow> sint x \<le> sint hi"
proof -
  from assms obtain d w where d: "int_sub x lo = Inr d" and w: "int_sub hi lo = Inr w"
    and b: "b \<longleftrightarrow> sint d \<le> sint w"
    by (auto simp: checkFilter_year_def Let_def split: sum.splits if_splits)
  from int_sub_value [OF d] int_sub_value [OF w] b show ?thesis by simp
qed


text \<open>With bounds and a year below \<open>2^31\<close> both differences are defined.\<close>

lemma sint_small:
  assumes "(a :: 32 word) < 2 ^ 31"
  shows "0 \<le> sint a \<and> sint a < 2147483648"
proof -
  from assms have a: "uint a < 2147483648"
    by (simp add: word_less_alt)
  have a0: "(0::int) \<le> uint a" by simp
  then have a1: "- 2147483648 \<le> uint a" by linarith
  have "sint a = signed_take_bit 31 (uint a)" by (simp add: sint_uint)
  also from a1 a have "\<dots> = uint a" by (simp add: signed_take_bit_int_eq_self_iff)
  finally have "sint a = uint a" .
  with a a0 show ?thesis by simp
qed

lemma checkFilter_year_small:
  assumes "lo < 2 ^ 31" and "hi < 2 ^ 31" and "x < 2 ^ 31" and "(lo, hi) \<noteq> (0, 0)"
  shows "checkFilter_year (Some (lo, hi)) x = Inr (sint x \<le> sint hi)"
proof -
  from assms(1-3) [THEN sint_small]
  have bounds: "0 \<le> sint lo" "sint lo < 2147483648" "0 \<le> sint hi" "sint hi < 2147483648"
    "0 \<le> sint x" "sint x < 2147483648"
    by simp_all
  then have "- 2147483648 \<le> sint x - sint lo \<and> sint x - sint lo < 2147483648"
    and "- 2147483648 \<le> sint hi - sint lo \<and> sint hi - sint lo < 2147483648"
    by linarith+
  then obtain d w where d: "int_sub x lo = Inr d" and w: "int_sub hi lo = Inr w"
    by (simp add: int_sub_def)
  from int_sub_value [OF d] int_sub_value [OF w] d w assms(4) show ?thesis
    by (auto simp: checkFilter_year_def)
qed

text \<open>
  Claim C1 says that a year filter other than \<open>(0, 0)\<close> accepts exactly the years
  between its bounds, so that \<open>(2010, 2012)\<close> rejects 2009 and 2013. The comparison
  \<^verbatim>\<open>(x - low) <= (high - low)\<close> is made on signed integers, so it only checks the upper
  bound: the filter \<open>(2010, 2012)\<close> accepts the years 2009 and 0, below its range, and
  rejects 2013.
\<close>

theorem checkFilter_year_accepts_below_range:
  "checkFilter_year (Some (2010, 2012)) 2009 = Inr True \<and>
   checkFilter_year (Some (2010, 2012)) 0 = Inr True \<and>
   checkFilter_year (Some (2010, 2012)) 2013 = Inr False"
  by (simp add: checkFilter_year_def int_sub_def)

subsection \<open>The percentage difference\<close>

lemma getDifferenceAsPercentage_few:
  "Measure_size m < 2 \<Longrightarrow> getDifferenceAsPercentage m = Finite 0 \<and> getDifference m = Finite 0"
  by (simp add: getDifferenceAsPercentage_def getDifference_def)

text \<open>
  Claim C2 says that \<^verbatim>\<open>getDifferenceAsPercentage\<close> returns 0 for a measure with fewer
  than two years, and also for one whose earliest value is zero. The first half holds
  (\<open>getDifferenceAsPercentage_few\<close>); for the second the function divides all the same:
  the measure with the values 0 for 2010 and 20 for 2015 yields an infinity, not 0.
\<close>

theorem getDifferenceAsPercentage_zero_earliest:
  "getDifferenceAsPercentage
     (setValue 2015 (Finite 20) (setValue 2010 (Finite 0) (new_Measure ''pop'' ''Population'')))
   = PosInf"
  by (simp add: getDifferenceAsPercentage_def getDifference_def Measure_size_def setValue_def
      new_Measure_def)

subsection \<open>The token-set filter\<close>

text \<open>
  Claim C5: a null or empty token set accepts every candidate. A non-empty set accepts
  a candidate if and only if some token equals the lowercased candidate, or, with
  enhanced matching only, some token is a substring of the lowercased candidate or of a
  lowercased string of the auxiliary list. The tokens are case-insensitive: each is
  lowercased before it is compared. Without enhanced matching only the equality counts.
\<close>

theorem checkFilter_token_set:
  "checkFilter None x e extra \<and> checkFilter (Some []) x e extra \<and>
   (f \<noteq> [] \<longrightarrow>
      (checkFilter (Some f) x e extra \<longleftrightarrow>
         (\<exists>t \<in> set f.
            stringToLower t = stringToLower x \<or>
            (e \<and> (sublist (stringToLower t) (stringToLower x) \<or>
                  (\<exists>n \<in> set extra. sublist (stringToLower t) (stringToLower n)))))))"
  by (simp add: checkFilter_def checkFilter_loop_iff)

theorem checkFilter_token_set_witness:
  "checkFilter (Some [''wales'']) ''W06000015'' True [''Vale of Wales''] \<and>
   \<not> checkFilter (Some [''wales'']) ''W06000015'' True [''England''] \<and>
   \<not> checkFilter (Some [''wales'']) ''W06000015'' False [''Vale of Wales'']"
  using checkFilter_token_set [of "''W06000015''" True "[''Vale of Wales'']" "[''wales'']"]
    checkFilter_token_set [of "''W06000015''" True "[''England'']" "[''wales'']"]
    checkFilter_token_set [of "''W06000015''" False "[''Vale of Wales'']" "[''wales'']"]
  by (simp add: lower_eval sublist_Cons_right)

subsection \<open>Names of an Area\<close>

text \<open>
  Claim C8: for a valid language code \<open>L\<close> (three ASCII letters, in any case) and any
  name \<open>N\<close>, \<^verbatim>\<open>setName(L, N)\<close> succeeds and \<^verbatim>\<open>getName(L')\<close> then returns \<open>N\<close> for every
  \<open>L'\<close> that is \<open>L\<close> up to letter case.
\<close>

theorem setName_then_getName:
  assumes "languageMatch L" and "stringToLower L' = stringToLower L"
  shows "\<exists>a'. setName L N a = (None, a') \<and> getName L' a' = Inr N"
  using assms by (simp add: setName_def getName_def map_of_map_put)

theorem setName_then_getName_witness:
  "languageMatch ''ENG'' \<and> stringToLower ''eNg'' = stringToLower ''ENG'' \<and>
   (\<exists>a'. setName ''ENG'' ''Wales'' (new_Area ''W1'') = (None, a') \<and>
         getName ''eNg'' a' = Inr ''Wales'')"
proof -
  have valid: "languageMatch ''ENG''"
    by (simp add: languageMatch_def is_letter_def)
  have same: "stringToLower ''eNg'' = stringToLower ''ENG''"
    by (simp add: lower_eval)
  from setName_then_getName [OF valid same] valid same show ?thesis by blast
qed

text \<open>
  Claim C9: for a language code that is not exactly three ASCII letters,
  \<^verbatim>\<open>setName\<close> raises the invalid-argument exception and leaves the Area as it was.
\<close>

theorem setName_invalid_code:
  assumes "\<not> languageMatch L"
  shows "setName L N a =
    (Some (InvalidArgument
       ''Area::setName: Language code must be three alphabetical letters only''), a)"
  using assms by (simp add: setName_def)

theorem setName_invalid_code_witness:
  "\<not> languageMatch ''en1'' \<and> \<not> languageMatch ''engl'' \<and>
   fst (setName ''engl'' ''Wales'' (new_Area ''W1'')) \<noteq> None \<and>
   snd (setName ''engl'' ''Wales'' (new_Area ''W1'')) = new_Area ''W1''"
proof -
  have a: "\<not> languageMatch ''en1''"
    by (simp add: languageMatch_def is_letter_def)
  have b: "\<not> languageMatch ''engl''"
    by (simp add: languageMatch_def)
  from setName_invalid_code [OF b, of "''Wales''" "new_Area ''W1''"] a b show ?thesis by simp
qed

subsection \<open>Merging\<close>

lemma ordered_keys_distinct: "ordered_keys m \<Longrightarrow> distinct (map fst m)"
  by (simp add: ordered_keys_def strict_sorted_iff)

lemma set_map_put: "fst ` set (map_put k v m) = insert k (fst ` set m)"
  by (simp add: dom_map_of_conv_image_fst [symmetric] map_of_map_put)

lemma ordered_keys_map_put: "ordered_keys m \<Longrightarrow> ordered_keys (map_put k v m)"
proof (induction m)
  case Nil
  then show ?case by (simp add: ordered_keys_def)
next
  case (Cons p m)
  obtain a b where p: "p = (a, b)" by (cases p)
  from Cons.prems p have rest: "ordered_keys m" and above: "\<forall>x \<in> fst ` set m. a < x"
    by (auto simp: ordered_keys_def)
  from Cons.IH [OF rest] have ih: "sorted_wrt (<) (map fst (map_put k v m))"
    by (simp add: ordered_keys_def)
  have "\<not> k < a \<Longrightarrow> k \<noteq> a \<Longrightarrow> \<forall>x \<in> fst ` set (map_put k v m). a < x"
    using above by (auto simp: set_map_put)
  with Cons.prems p ih show ?case
    by (auto simp: ordered_keys_def)
qed

lemma map_add_upd_left:
  "k \<notin> dom n \<Longrightarrow> m(k \<mapsto> v) ++ n = m ++ n(k \<mapsto> v)"
  by (auto simp: fun_eq_iff map_add_def split: option.splits)

lemma setValue_sel:
  "label (setValue y v m) = label m"
  "codename (setValue y v m) = codename m"
  "map_of (mvalues (setValue y v m)) = (map_of (mvalues m))(y \<mapsto> v)"
  by (simp_all add: setValue_def map_of_map_put)

lemma fold_setValue:
  "distinct (map fst xs) \<Longrightarrow>
   label (fold (\<lambda>(year, v). setValue year v) xs m) = label m \<and>
   codename (fold (\<lambda>(year, v). setValue year v) xs m) = codename m \<and>
   map_of (mvalues (fold (\<lambda>(year, v). setValue year v) xs m)) = map_of (mvalues m) ++ map_of xs"
proof (induction xs arbitrary: m)
  case Nil
  then show ?case by simp
next
  case (Cons p xs)
  obtain y v where p: "p = (y, v)" by (cases p)
  from Cons.prems p have fresh: "y \<notin> dom (map_of xs)" and dist: "distinct (map fst xs)"
    by (auto simp: dom_map_of_conv_image_fst)
  let ?f = "\<lambda>(year, v). setValue year v"
  have step: "fold ?f (p # xs) m = fold ?f xs (setValue y v m)"
    using p by simp
  note ih = Cons.IH [OF dist, of "setValue y v m"]
  have "map_of (mvalues (fold ?f xs (setValue y v m))) =
      (map_of (mvalues m))(y \<mapsto> v) ++ map_of xs"
    using ih by (simp only: setValue_sel)
  also have "\<dots> = map_of (mvalues m) ++ (map_of xs)(y \<mapsto> v)"
    by (rule map_add_upd_left [OF fresh])
  also have "\<dots> = map_of (mvalues m) ++ map_of (p # xs)"
    using p by simp
  finally have vals: "map_of (mvalues (fold ?f (p # xs) m)) = map_of (mvalues m) ++ map_of (p # xs)"
    by (simp only: step)
  from ih have "label (fold ?f (p # xs) m) = label m" "codename (fold ?f (p # xs) m) = codename m"
    by (simp_all only: step setValue_sel)
  with vals show ?case by blast
qed

lemma measure_merge_facts:
  "distinct (map fst (mvalues rhs)) \<Longrightarrow>
   label (measure_merge lhs rhs) = label rhs \<and>
   codename (measure_merge lhs rhs) = codename lhs \<and>
   map_of (mvalues (measure_merge lhs rhs)) = map_of (mvalues lhs) ++ map_of (mvalues rhs)"
  using fold_setValue [of "mvalues rhs" "lhs\<lparr>label := label rhs\<rparr>"]
  by (simp add: measure_merge_def)

lemma setName_valid:
  "languageMatch l \<Longrightarrow> stringToLower l = l \<Longrightarrow>
   setName l n a = (None, a\<lparr>names := map_put l n (names a)\<rparr>)"
  by (simp add: setName_def)

lemma for_each_setName:
  "distinct (map fst xs) \<Longrightarrow>
   list_all (\<lambda>(l, n). languageMatch l \<and> stringToLower l = l) xs \<Longrightarrow>
   \<exists>a'. for_each (\<lambda>(l, n). setName l n) xs a = (None, a') \<and>
        map_of (names a') = map_of (names a) ++ map_of xs \<and>
        measures a' = measures a \<and> localAuthorityCode a' = localAuthorityCode a"
proof (induction xs arbitrary: a)
  case Nil
  then show ?case by simp
next
  case (Cons p xs)
  obtain l n where p: "p = (l, n)" by (cases p)
  from Cons.prems p have fresh: "l \<notin> dom (map_of xs)" and dist: "distinct (map fst xs)"
    and valid: "languageMatch l" "stringToLower l = l"
    and rest: "list_all (\<lambda>(l, n). languageMatch l \<and> stringToLower l = l) xs"
    by (auto simp: dom_map_of_conv_image_fst)
  let ?a1 = "a\<lparr>names := map_put l n (names a)\<rparr>"
  let ?f = "\<lambda>(l, n). setName l n"
  from Cons.IH [OF dist rest, of ?a1] obtain a' where
    run: "for_each ?f xs ?a1 = (None, a')"
    and nm: "map_of (names a') = map_of (names ?a1) ++ map_of xs"
    and same: "measures a' = measures ?a1" "localAuthorityCode a' = localAuthorityCode ?a1"
    by blast
  have step: "for_each ?f (p # xs) a = (None, a')"
    using run p by (simp add: setName_valid [OF valid])
  have "map_of (names a') = (map_of (names a))(l \<mapsto> n) ++ map_of xs"
    using nm by (simp add: map_of_map_put)
  also have "\<dots> = map_of (names a) ++ (map_of xs)(l \<mapsto> n)"
    by (rule map_add_upd_left [OF fresh])
  also have "\<dots> = map_of (names a) ++ map_of (p # xs)"
    using p by simp
  finally have nm': "map_of (names a') = map_of (names a) ++ map_of (p # xs)" .
  from same have "measures a' = measures a" "localAuthorityCode a' = localAuthorityCode a"
    by simp_all
  with step nm' show ?case by blast
qed

lemma setMeasure_lower:
  "stringToLower c = c \<Longrightarrow>
   setMeasure c m a =
     (None, a\<lparr>measures := map_put c (the (merge_entry (map_of (measures a) c) (Some m)))
                             (measures a)\<rparr>)"
  by (auto simp: setMeasure_def getMeasure_def merge_entry_def Let_def split: option.splits)

lemma merge_entry_step:
  "k \<notin> dom n \<Longrightarrow>
   merge_entry ((old(k \<mapsto> the (merge_entry (old k) (Some m)))) j) (n j) =
   merge_entry (old j) ((n(k \<mapsto> m)) j)"
  by (auto simp: merge_entry_def split: option.splits)

lemma for_each_setMeasure:
  "distinct (map fst xs) \<Longrightarrow>
   list_all (\<lambda>(c, m). stringToLower c = c) xs \<Longrightarrow>
   \<exists>a'. for_each (\<lambda>(c, m). setMeasure c m) xs a = (None, a') \<and>
        (\<forall>k. map_of (measures a') k = merge_entry (map_of (measures a) k) (map_of xs k)) \<and>
        names a' = names a \<and> localAuthorityCode a' = localAuthorityCode a"
proof (induction xs arbitrary: a)
  case Nil
  then show ?case by (simp add: merge_entry_def)
next
  case (Cons p xs)
  obtain c m where p: "p = (c, m)" by (cases p)
  from Cons.prems p have fresh: "c \<notin> dom (map_of xs)" and dist: "distinct (map fst xs)"
    and lower: "stringToLower c = c"
    and rest: "list_all (\<lambda>(c, m). stringToLower c = c) xs"
    by (auto simp: dom_map_of_conv_image_fst)
  let ?a1 = "a\<lparr>measures := map_put c (the (merge_entry (map_of (measures a) c) (Some m)))
                             (measures a)\<rparr>"
  from Cons.IH [OF dist rest, of ?a1] obtain a' where
    run: "for_each (\<lambda>(c, m). setMeasure c m) xs ?a1 = (None, a')"
    and ms: "\<forall>k. map_of (measures a') k = merge_entry (map_of (measures ?a1) k) (map_of xs k)"
    and same: "names a' = names ?a1" "localAuthorityCode a' = localAuthorityCode ?a1"
    by blast
  have step: "for_each (\<lambda>(c, m). setMeasure c m) (p # xs) a = (None, a')"
    using run p by (simp add: setMeasure_lower [OF lower])
  have "map_of (measures ?a1) k =
      ((map_of (measures a))(c \<mapsto> the (merge_entry (map_of (measures a) c) (Some m)))) k" for k
    by (simp add: map_of_map_put)
  with ms have "map_of (measures a') k =
      merge_entry (map_of (measures a) k) (((map_of xs)(c \<mapsto> m)) k)" for k
    by (simp only: merge_entry_step [OF fresh])
  moreover have "map_of (p # xs) = (map_of xs)(c \<mapsto> m)"
    using p by simp
  ultimately have ms': "\<forall>k. map_of (measures a') k =
      merge_entry (map_of (measures a) k) (map_of (p # xs) k)"
    by simp
  from same have "names a' = names a" "localAuthorityCode a' = localAuthorityCode a"
    by simp_all
  with step ms' show ?case by blast
qed
lemma area_merge_facts:
  assumes "Area_inv rhs"
  shows "\<exists>r. area_merge lhs rhs = (None, r) \<and>
     localAuthorityCode r = localAuthorityCode lhs \<and>
     map_of (names r) = map_of (names lhs) ++ map_of (names rhs) \<and>
     (\<forall>k. map_of (measures r) k = merge_entry (map_of (measures lhs) k) (map_of (measures rhs) k))"
proof -
  from assms have n: "distinct (map fst (names rhs))"
      "list_all (\<lambda>(l, n). languageMatch l \<and> stringToLower l = l) (names rhs)"
    and m: "distinct (map fst (measures rhs))" "list_all (\<lambda>(c, m). stringToLower c = c) (measures rhs)"
    by (simp_all add: Area_inv_def ordered_keys_distinct)
  from for_each_setName [OF n, of lhs] obtain a1 where
    1: "for_each (\<lambda>(l, n). setName l n) (names rhs) lhs = (None, a1)"
    and 2: "map_of (names a1) = map_of (names lhs) ++ map_of (names rhs)"
      "measures a1 = measures lhs" "localAuthorityCode a1 = localAuthorityCode lhs"
    by blast
  from for_each_setMeasure [OF m, of a1] obtain r where
    3: "for_each (\<lambda>(c, m). setMeasure c m) (measures rhs) a1 = (None, r)"
    and 4: "\<forall>k. map_of (measures r) k = merge_entry (map_of (measures a1) k) (map_of (measures rhs) k)"
      "names r = names a1" "localAuthorityCode r = localAuthorityCode a1"
    by blast
  from 1 3 have "area_merge lhs rhs = (None, r)" by (simp add: area_merge_def)
  with 2 4 show ?thesis by simp
qed

lemma setArea_existing:
  assumes "Area_inv rhs" and "map_of areas code = Some lhs"
  shows "\<exists>r. area_merge lhs rhs = (None, r) \<and> setArea code rhs areas = (None, map_put code r areas)"
  using area_merge_facts [OF assms(1), of lhs] assms(2)
  by (auto simp: setArea_def getArea_def)

text \<open>
  Claim C3: merging an incoming entity into the existing one with the same key removes
  no key. For \<^verbatim>\<open>Measure += Measure\<close> (reached through \<^verbatim>\<open>setMeasure\<close>) the label is the
  incoming one and the year-value map is the existing map overridden by the incoming
  map; for \<^verbatim>\<open>Area += Area\<close> (reached through \<^verbatim>\<open>setArea\<close>) the name map is the existing
  one overridden by the incoming one, and the measure map holds under every key of
  either Area the incoming measure, merged into the existing one where there is one.
  So each result map has the keys of both entities, with the incoming value on the
  shared ones. The incoming maps are \<^verbatim>\<open>std::map\<close>s as the program builds them.
\<close>

theorem merge_keeps_keys_incoming_wins:
  assumes "ordered_keys (mvalues mr)" and "Area_inv rhs" and "map_of areas code = Some lhs"
  shows "label (measure_merge ml mr) = label mr \<and>
     map_of (mvalues (measure_merge ml mr)) = map_of (mvalues ml) ++ map_of (mvalues mr) \<and>
     (map_of (measures a) (stringToLower c) = Some ml \<longrightarrow>
        setMeasure c mr a =
          (None, a\<lparr>measures :=
             map_put (stringToLower c) (measure_merge ml mr) (measures a)\<rparr>)) \<and>
     (\<exists>r. area_merge lhs rhs = (None, r) \<and>
          setArea code rhs areas = (None, map_put code r areas) \<and>
          map_of (names r) = map_of (names lhs) ++ map_of (names rhs) \<and>
          (\<forall>k. map_of (measures r) k =
                merge_entry (map_of (measures lhs) k) (map_of (measures rhs) k)))"
proof -
  have m: "label (measure_merge ml mr) = label mr \<and>
     map_of (mvalues (measure_merge ml mr)) = map_of (mvalues ml) ++ map_of (mvalues mr)"
    using measure_merge_facts [OF ordered_keys_distinct [OF assms(1)], of ml] by simp
  have s: "map_of (measures a) (stringToLower c) = Some ml \<longrightarrow>
        setMeasure c mr a =
          (None, a\<lparr>measures :=
             map_put (stringToLower c) (measure_merge ml mr) (measures a)\<rparr>)"
    by (simp add: setMeasure_def getMeasure_def Let_def stringToLower_idem)
  from area_merge_facts [OF assms(2), of lhs] obtain r where
    r: "area_merge lhs rhs = (None, r)"
      "map_of (names r) = map_of (names lhs) ++ map_of (names rhs)"
      "\<forall>k. map_of (measures r) k = merge_entry (map_of (measures lhs) k) (map_of (measures rhs) k)"
    by blast
  from r(1) assms(3) have "setArea code rhs areas = (None, map_put code r areas)"
    by (simp add: setArea_def getArea_def)
  with m s r show ?thesis by blast
qed

theorem merge_keeps_keys_incoming_wins_witness:
  "ordered_keys [(2010 :: 32 word, Finite 6), (2011, Finite 7)] \<and>
   Area_inv \<lparr>localAuthorityCode = ''W1'', names = [(''cym'', ''Bar''), (''eng'', ''New'')],
     measures = [(''pop'', \<lparr>codename = ''pop'', label = ''Population'',
                   mvalues = [(2010, Finite 6), (2011, Finite 7)]\<rparr>)]\<rparr> \<and>
   (\<exists>r. setArea ''W1''
          \<lparr>localAuthorityCode = ''W1'', names = [(''cym'', ''Bar''), (''eng'', ''New'')],
            measures = [(''pop'', \<lparr>codename = ''pop'', label = ''Population'',
                   mvalues = [(2010, Finite 6), (2011, Finite 7)]\<rparr>)]\<rparr>
          [(''W1'', \<lparr>localAuthorityCode = ''W1'', names = [(''eng'', ''Old''), (''fra'', ''Galles'')],
             measures = [(''dens'', new_Measure ''dens'' ''Density''),
                         (''pop'', \<lparr>codename = ''pop'', label = ''Pop.'',
                            mvalues = [(2009, Finite 4), (2010, Finite 5)]\<rparr>)]\<rparr>)]
        = (None, [(''W1'', r)]) \<and>
        map_of (names r) ''eng'' = Some ''New'' \<and>
        map_of (names r) ''cym'' = Some ''Bar'' \<and>
        map_of (names r) ''fra'' = Some ''Galles'' \<and>
        map_of (measures r) ''dens'' = Some (new_Measure ''dens'' ''Density'') \<and>
        (\<exists>m. map_of (measures r) ''pop'' = Some m \<and> label m = ''Population'' \<and>
             map_of (mvalues m) 2009 = Some (Finite 4) \<and>
             map_of (mvalues m) 2010 = Some (Finite 6) \<and>
             map_of (mvalues m) 2011 = Some (Finite 7)))"
proof -
  let ?mr = "\<lparr>codename = ''pop'', label = ''Population'',
                   mvalues = [(2010 :: 32 word, Finite 6), (2011, Finite 7)]\<rparr>"
  let ?ml = "\<lparr>codename = ''pop'', label = ''Pop.'',
                   mvalues = [(2009 :: 32 word, Finite 4), (2010, Finite 5)]\<rparr>"
  let ?rhs = "\<lparr>localAuthorityCode = ''W1'', names = [(''cym'', ''Bar''), (''eng'', ''New'')],
     measures = [(''pop'', ?mr)]\<rparr>"
  let ?lhs = "\<lparr>localAuthorityCode = ''W1'', names = [(''eng'', ''Old''), (''fra'', ''Galles'')],
             measures = [(''dens'', new_Measure ''dens'' ''Density''), (''pop'', ?ml)]\<rparr>"
  have h1: "ordered_keys (mvalues ?mr)"
    by (simp add: ordered_keys_def)
  have h2: "Area_inv ?rhs"
    by (simp add: Area_inv_def ordered_keys_def languageMatch_def is_letter_def lower_eval)
  have h3: "map_of [(''W1'', ?lhs)] ''W1'' = Some ?lhs"
    by simp
  from merge_keeps_keys_incoming_wins [OF h1 h2 h3, of ?ml] obtain r where
    m: "label (measure_merge ?ml ?mr) = label ?mr"
      "map_of (mvalues (measure_merge ?ml ?mr)) = map_of (mvalues ?ml) ++ map_of (mvalues ?mr)"
    and r: "setArea ''W1'' ?rhs [(''W1'', ?lhs)] = (None, map_put ''W1'' r [(''W1'', ?lhs)])"
      "map_of (names r) = map_of (names ?lhs) ++ map_of (names ?rhs)"
      "\<forall>k. map_of (measures r) k =
         merge_entry (map_of (measures ?lhs) k) (map_of (measures ?rhs) k)"
    by blast
  from r(1) have a: "setArea ''W1'' ?rhs [(''W1'', ?lhs)] = (None, [(''W1'', r)])"
    by simp
  from r(2) have n: "map_of (names r) ''eng'' = Some ''New''"
      "map_of (names r) ''cym'' = Some ''Bar''" "map_of (names r) ''fra'' = Some ''Galles''"
    by (simp_all add: map_add_def)
  from r(3) have d: "map_of (measures r) ''dens'' = Some (new_Measure ''dens'' ''Density'')"
    and p: "map_of (measures r) ''pop'' = Some (measure_merge ?ml ?mr)"
    by (simp_all add: merge_entry_def)
  from m have v: "label (measure_merge ?ml ?mr) = ''Population''"
      "map_of (mvalues (measure_merge ?ml ?mr)) 2009 = Some (Finite 4)"
      "map_of (mvalues (measure_merge ?ml ?mr)) 2010 = Some (Finite 6)"
      "map_of (mvalues (measure_merge ?ml ?mr)) 2011 = Some (Finite 7)"
    by (simp_all add: map_add_def)
  from h1 h2 a n d p v show ?thesis by auto
qed

subsection \<open>The invariants are kept\<close>

lemma list_all_map_put:
  "P (k, v) \<Longrightarrow> list_all P m \<Longrightarrow> list_all P (map_put k v m)"
  by (induction m) auto

lemma Area_inv_new: "Area_inv (new_Area code)"
  by (simp add: Area_inv_def new_Area_def ordered_keys_def)

lemma Area_inv_setName:
  assumes "Area_inv a" and "setName l n a = (None, a')"
  shows "Area_inv a'"
proof -
  from assms(2) have valid: "languageMatch l"
    and a': "a' = a\<lparr>names := map_put (stringToLower l) n (names a)\<rparr>"
    by (auto simp: setName_def split: if_splits)
  from valid have "languageMatch (stringToLower l)"
    by (auto simp: languageMatch_def stringToLower_def list_all_iff is_letter_def tolower_def
        less_eq_char_def)
  with assms(1) show ?thesis
    unfolding a' Area_inv_def
    by (simp add: ordered_keys_map_put list_all_map_put stringToLower_idem)
qed

lemma setMeasure_ok:
  "\<exists>m'. setMeasure c m a =
     (None, a\<lparr>measures := map_put (stringToLower c) m' (measures a)\<rparr>)"
  by (auto simp: setMeasure_def getMeasure_def Let_def stringToLower_idem split: option.splits)

lemma Area_inv_setMeasure:
  assumes "Area_inv a" and "setMeasure c m a = (r, a')"
  shows "r = None \<and> Area_inv a'"
proof -
  from setMeasure_ok [of c m a] assms(2) obtain m' where
    "r = None" "a' = a\<lparr>measures := map_put (stringToLower c) m' (measures a)\<rparr>"
    by auto
  with assms(1) show ?thesis
    by (simp add: Area_inv_def ordered_keys_map_put list_all_map_put stringToLower_idem)
qed

lemma setArea_ok:
  assumes "Area_inv area"
  shows "\<exists>areas'. setArea code area areas = (None, areas')"
proof (cases "map_of areas code")
  case None
  then show ?thesis by (simp add: setArea_def)
next
  case (Some lhs)
  from area_merge_facts [OF assms, of lhs] Some show ?thesis
    by (auto simp: setArea_def getArea_def)
qed

subsection \<open>Evaluation of concrete imports\<close>

lemma getlines_Nil: "getlines d [] = []"
  by (simp add: getlines.simps)

lemma getlines_Cons:
  "getlines d (c # s) =
     takeWhile (\<lambda>c. c \<noteq> d) (c # s) # getlines d (drop 1 (dropWhile (\<lambda>c. c \<noteq> d) (c # s)))"
  by (subst getlines.simps) simp

lemmas parse_eval = stoul_def strip_sign_def digits_value_def isspace_def isdigit_def ULONG_MAX_def
  parse_year_def parse_value_def stod_def strtod_converts_def

lemmas entity_eval = Let_def new_Area_def new_Measure_def setName_def setMeasure_def getMeasure_def
  setValue_def setArea_def getArea_def area_merge_def measure_merge_def getExistingNames_def
  languageMatch_def is_letter_def

lemmas import_eval = getlines_Nil getlines_Cons cols_size_def cols_at_def checkFilter_def
  checkFilter_year_def int_sub_def and_then_def string_field_def value_field_def record_fields_def
  authorityCode_row_def populateFromAuthorityCodeCSV_def
  welshStats_record_def populateFromWelshStatsJSON_def
  authorityByYear_row_def populateFromAuthorityByYearCSV_def

lemmas example_eval = example_sv_def example_areas_cols_def example_json_cols_def
  example_year_cols_def example_record_def example_parse_def

subsection \<open>A failed import\<close>

text \<open>A loop whose failing steps leave the state alone stops in the state of a prefix.\<close>

lemma for_each_failure:
  assumes frame: "\<forall>r s e s'. body r s = (Some e, s') \<longrightarrow> s' = s"
    and fail: "for_each body rs s = (Some e, s')"
  shows "\<exists>k < length rs. for_each body (take k rs) s = (None, s') \<and>
           body (rs ! k) s' = (Some e, s')"
  using fail
proof (induction rs arbitrary: s)
  case Nil
  then show ?case by simp
next
  case (Cons r rs)
  show ?case
  proof (cases "body r s")
    case (Pair res s1)
    show ?thesis
    proof (cases res)
      case None
      with Pair Cons.prems have "for_each body rs s1 = (Some e, s')" by simp
      from Cons.IH [OF this] obtain k where
        k: "k < length rs" "for_each body (take k rs) s1 = (None, s')"
          "body (rs ! k) s' = (Some e, s')"
        by blast
      with Pair None have "Suc k < length (r # rs)"
        "for_each body (take (Suc k) (r # rs)) s = (None, s')"
        "body ((r # rs) ! Suc k) s' = (Some e, s')"
        by simp_all
      then show ?thesis by blast
    next
      case (Some e1)
      with Pair Cons.prems have eq: "e1 = e" "s1 = s'" by simp_all
      with Pair Some frame have "s' = s" by blast
      with Pair Some eq have "0 < length (r # rs)" "for_each body (take 0 (r # rs)) s = (None, s')"
        "body ((r # rs) ! 0) s' = (Some e, s')"
        by simp_all
      then show ?thesis by blast
    qed
  qed
qed

lemma authorityCode_row_frame:
  assumes "authorityCode_row af line areas = (Some e, areas')"
  shows "areas' = areas"
proof -
  let ?d = "getlines CHR '','' line"
  have "Area_inv a2" if "setName ''eng'' x (new_Area c) = (None, a1)"
    and "setName ''cym'' y a1 = (None, a2)" for x y c a1 a2
    using that Area_inv_setName Area_inv_new by blast
  then have "\<exists>s. setArea c a2 areas = (None, s)" if "setName ''eng'' x (new_Area c) = (None, a1)"
    and "setName ''cym'' y a1 = (None, a2)" for x y c a1 a2
    using that setArea_ok by blast
  with assms show ?thesis
    by (fastforce simp: authorityCode_row_def Let_def split: if_splits prod.splits option.splits)
qed

lemma welshStats_record_frame:
  assumes "welshStats_record sv cols af mf yf data areas = (Some e, areas')"
  shows "areas' = areas"
proof (cases "record_fields sv cols data")
  case (Inl e1)
  with assms show ?thesis by (simp add: welshStats_record_def)
next
  case (Inr fs)
  obtain code name mc mn year v where fs: "fs = (code, name, mc, mn, year, v)"
    by (cases fs) auto
  show ?thesis
  proof (cases "checkFilter af code True (getExistingNames code areas @ [name])")
    case False
    with assms Inr fs show ?thesis by (simp add: welshStats_record_def)
  next
    case True
    show ?thesis
    proof (cases "setName ''eng'' name (new_Area code)")
      case (Pair r1 a1)
      show ?thesis
      proof (cases r1)
        case (Some e1)
        with assms Inr fs True Pair show ?thesis by (simp add: welshStats_record_def)
      next
        case named: None
        with Pair have inv1: "Area_inv a1"
          using Area_inv_setName Area_inv_new by blast
        let ?m = "if checkFilter mf mc False [] then
                    (let msr = new_Measure mc mn in
                     case checkFilter_year yf year of
                       Inl e \<Rightarrow> (Some e, a1)
                     | Inr inRange \<Rightarrow>
                         setMeasure mc (if inRange then setValue year v msr else msr) a1)
                  else (None, a1)"
        obtain r2 a2 where step2: "?m = (r2, a2)" by (cases ?m)
        show ?thesis
        proof (cases r2)
          case (Some e2)
          with assms Inr fs True Pair named step2 show ?thesis
            by (simp add: welshStats_record_def)
        next
          case measured: None
          with step2 inv1 have "Area_inv a2"
            by (auto simp: Let_def dest: Area_inv_setMeasure split: if_splits sum.splits)
          from setArea_ok [OF this] obtain s where "setArea code a2 areas = (None, s)"
            by blast
          with assms Inr fs True Pair named step2 measured show ?thesis
            by (simp add: welshStats_record_def)
        qed
      qed
    qed
  qed
qed


lemma authorityByYear_row_frame:
  assumes "authorityByYear_row sv cols af mf yf fileCols line areas = (Some e, areas')"
  shows "areas' = areas"
proof (cases "getlines CHR '','' line")
  case Nil
  with assms show ?thesis by (simp add: authorityByYear_row_def)
next
  case (Cons code cells)
  note row = assms [unfolded authorityByYear_row_def Cons, simplified]
  have a: "\<exists>s. setArea code (new_Area code) areas = (None, s)"
    using setArea_ok [OF Area_inv_new] by blast
  have b: "\<exists>a1. setMeasure mc m (new_Area code) = (None, a1) \<and>
      (\<exists>s. setArea code a1 areas = (None, s))" for mc m
  proof -
    obtain r a1 where s: "setMeasure mc m (new_Area code) = (r, a1)"
      by (cases "setMeasure mc m (new_Area code)")
    from Area_inv_setMeasure [OF Area_inv_new s] setArea_ok [of a1 code areas] s
    show ?thesis by auto
  qed
  show ?thesis
  proof (cases "checkFilter af code True (getExistingNames code areas)")
    case False
    with row show ?thesis by simp
  next
    case pass: True
    show ?thesis
    proof (cases "cols_at cols SINGLE_MEASURE_CODE")
      case (Inl e1)
      with row pass show ?thesis by simp
    next
      case mc: (Inr measureCode)
      show ?thesis
      proof (cases "checkFilter mf measureCode False []")
        case False
        with row pass mc a show ?thesis by auto
      next
        case mpass: True
        show ?thesis
        proof (cases "cols_at cols SINGLE_MEASURE_NAME")
          case (Inl e1)
          with row pass mc mpass show ?thesis by simp
        next
          case mn: (Inr measureName)
          show ?thesis
          proof (cases "year_cells sv yf (tl fileCols) cells (new_Measure measureCode measureName)")
            case (Inl e1)
            with row pass mc mpass mn show ?thesis by simp
          next
            case (Inr msr)
            with row pass mc mpass mn b [of measureCode msr] show ?thesis by auto
          qed
        qed
      qed
    qed
  qed
qed

lemma for_each_prefix:
  assumes frame: "\<forall>r s e s'. body r s = (Some e, s') \<longrightarrow> s' = s"
    and fail: "for_each body rs s = (Some e, s')"
  shows "\<exists>k \<le> length rs. for_each body (take k rs) s = (None, s')"
  using for_each_failure [OF frame fail] by (meson less_imp_le)

lemma authorityCode_failure:
  assumes "populateFromAuthorityCodeCSV content cols af areas = (Some e, areas')"
  shows "areas' = areas \<or>
    for_each (authorityCode_row af) (tl (getlines CHR 0x0A content)) areas = (Some e, areas')"
proof (cases "getlines CHR 0x0A content")
  case Nil
  with assms show ?thesis by (simp add: populateFromAuthorityCodeCSV_def)
next
  case (Cons line rows)
  with assms show ?thesis
    by (cases "length (getlines CHR '','' line) = cols_size cols")
       (simp_all add: populateFromAuthorityCodeCSV_def)
qed

lemma welshStats_failure:
  assumes "populateFromWelshStatsJSON parse sv content cols af mf yf areas = (Some e, areas')"
  shows "areas' = areas \<or>
    (\<exists>j v. parse content = Some j \<and> json_index j ''value'' = Inr v \<and>
       for_each (welshStats_record sv cols af mf yf) (json_items v) areas = (Some e, areas'))"
proof (cases "parse content")
  case None
  with assms show ?thesis by (simp add: populateFromWelshStatsJSON_def)
next
  case (Some j)
  with assms show ?thesis
    by (cases "json_index j ''value''") (simp_all add: populateFromWelshStatsJSON_def)
qed

lemma authorityByYear_failure:
  assumes "populateFromAuthorityByYearCSV sv content cols af mf yf areas = (Some e, areas')"
  shows "areas' = areas \<or>
    for_each
      (authorityByYear_row sv cols af mf yf (getlines CHR '','' (hd (getlines CHR 0x0A content))))
      (tl (getlines CHR 0x0A content)) areas = (Some e, areas')"
proof (cases "getlines CHR 0x0A content")
  case Nil
  with assms show ?thesis by (simp add: populateFromAuthorityByYearCSV_def)
next
  case (Cons line rows)
  note run = assms [unfolded populateFromAuthorityByYearCSV_def Cons, simplified]
  show ?thesis
  proof (cases "cols_size cols = 3")
    case False
    with run show ?thesis by simp
  next
    case three: True
    show ?thesis
    proof (cases "getlines CHR '','' line")
      case Nil
      with run three show ?thesis by simp
    next
      case fc: (Cons first others)
      show ?thesis
      proof (cases "cols_at cols AUTH_CODE")
        case (Inl e1)
        with run three fc show ?thesis by simp
      next
        case (Inr tag)
        with run three fc Cons show ?thesis
          by (cases "first = tag") simp_all
      qed
    qed
  qed
qed

text \<open>
  Claim C4: when an importer raises an error, the import stops and the record being
  processed leaves nothing in the container: the container after the failed call is
  the one obtained by importing, completely and without error, the records before the
  failing one (none of them when the failure is in the header or in the parse of the
  document). This holds for each of the three importers and for every exception (for
  the wide table, in the executions that C++ defines).
\<close>

theorem failed_import_keeps_whole_records:
  "(populateFromAuthorityCodeCSV content cols af areas = (Some e, areas') \<longrightarrow>
      (\<exists>k \<le> length (tl (getlines CHR 0x0A content)).
         for_each (authorityCode_row af) (take k (tl (getlines CHR 0x0A content))) areas
           = (None, areas'))) \<and>
   (populateFromWelshStatsJSON parse sv content cols af mf yf areas = (Some e, areas') \<longrightarrow>
      (\<exists>rs. (rs = [] \<or>
              (\<exists>j v k. parse content = Some j \<and> json_index j ''value'' = Inr v \<and>
                       rs = take k (json_items v))) \<and>
         for_each (welshStats_record sv cols af mf yf) rs areas = (None, areas'))) \<and>
   (populateFromAuthorityByYearCSV sv content cols af mf yf areas = (Some e, areas') \<and>
      e \<noteq> Undefined \<longrightarrow>
      (\<exists>k \<le> length (tl (getlines CHR 0x0A content)).
         for_each
           (authorityByYear_row sv cols af mf yf (getlines CHR '','' (hd (getlines CHR 0x0A content))))
           (take k (tl (getlines CHR 0x0A content))) areas
           = (None, areas')))"
proof (intro conjI impI)
  let ?step = "authorityCode_row af"
  assume "populateFromAuthorityCodeCSV content cols af areas = (Some e, areas')"
  from authorityCode_failure [OF this]
  show "\<exists>k \<le> length (tl (getlines CHR 0x0A content)).
         for_each ?step (take k (tl (getlines CHR 0x0A content))) areas = (None, areas')"
  proof
    assume "areas' = areas"
    then show ?thesis by (intro exI [of _ 0]) simp
  next
    have frame: "\<forall>r s e s'. ?step r s = (Some e, s') \<longrightarrow> s' = s"
      using authorityCode_row_frame by blast
    assume "for_each ?step (tl (getlines CHR 0x0A content)) areas = (Some e, areas')"
    from for_each_prefix [OF frame this] show ?thesis .
  qed
next
  let ?step = "welshStats_record sv cols af mf yf"
  assume "populateFromWelshStatsJSON parse sv content cols af mf yf areas = (Some e, areas')"
  from welshStats_failure [OF this]
  show "\<exists>rs. (rs = [] \<or>
              (\<exists>j v k. parse content = Some j \<and> json_index j ''value'' = Inr v \<and>
                       rs = take k (json_items v))) \<and>
         for_each ?step rs areas = (None, areas')"
  proof
    assume "areas' = areas"
    then show ?thesis by (intro exI [of _ "[]"]) simp
  next
    have frame: "\<forall>r s e s'. ?step r s = (Some e, s') \<longrightarrow> s' = s"
      using welshStats_record_frame by blast
    assume "\<exists>j v. parse content = Some j \<and> json_index j ''value'' = Inr v \<and>
       for_each ?step (json_items v) areas = (Some e, areas')"
    then obtain j v where jv: "parse content = Some j" "json_index j ''value'' = Inr v"
      and run: "for_each ?step (json_items v) areas = (Some e, areas')"
      by blast
    from for_each_prefix [OF frame run] obtain k where
      "for_each ?step (take k (json_items v)) areas = (None, areas')" by blast
    with jv show ?thesis by blast
  qed
next
  let ?rows = "tl (getlines CHR 0x0A content)"
  let ?step = "authorityByYear_row sv cols af mf yf
      (getlines CHR '','' (hd (getlines CHR 0x0A content)))"
  assume "populateFromAuthorityByYearCSV sv content cols af mf yf areas = (Some e, areas') \<and>
      e \<noteq> Undefined"
  then have "populateFromAuthorityByYearCSV sv content cols af mf yf areas = (Some e, areas')"
    by simp
  from authorityByYear_failure [OF this]
  show "\<exists>k \<le> length ?rows. for_each ?step (take k ?rows) areas = (None, areas')"
  proof
    assume "areas' = areas"
    then show ?thesis by (intro exI [of _ 0]) simp
  next
    have frame: "\<forall>r s e s'. ?step r s = (Some e, s') \<longrightarrow> s' = s"
      using authorityByYear_row_frame by blast
    assume "for_each ?step ?rows areas = (Some e, areas')"
    from for_each_prefix [OF frame this] show ?thesis .
  qed
qed

theorem failed_import_keeps_whole_records_witness:
  "populateFromAuthorityCodeCSV
      (''code,eng,cym'' @ CHR 0x0A # ''W1,Foo,Bar'' @ CHR 0x0A # ''W2,Baz'')
      example_areas_cols None []
    = (Some (RuntimeError ''Malformed file!''),
       [(''W1'', \<lparr>localAuthorityCode = ''W1'', names = [(''cym'', ''Bar''), (''eng'', ''Foo'')],
                  measures = []\<rparr>)]) \<and>
   (\<exists>k \<le> 2. for_each (authorityCode_row None) (take k [''W1,Foo,Bar'', ''W2,Baz'']) []
       = (None,
          [(''W1'', \<lparr>localAuthorityCode = ''W1'', names = [(''cym'', ''Bar''), (''eng'', ''Foo'')],
                     measures = []\<rparr>)])) \<and>
   populateFromWelshStatsJSON
      (example_parse [example_record ''W1'' ''2010'', example_record ''W2'' ''next''])
      example_sv [] example_json_cols None None None []
    = (Some (RuntimeError ''Malformed file!''),
       [(''W1'', \<lparr>localAuthorityCode = ''W1'', names = [(''eng'', ''Foo'')],
                  measures = [(''pop'', \<lparr>codename = ''pop'', label = ''Population'',
                     mvalues = [(2010, Finite 5)]\<rparr>)]\<rparr>)]) \<and>
   (\<exists>rs. for_each (welshStats_record example_sv example_json_cols None None None) rs []
       = (None,
          [(''W1'', \<lparr>localAuthorityCode = ''W1'', names = [(''eng'', ''Foo'')],
                     measures = [(''pop'', \<lparr>codename = ''pop'', label = ''Population'',
                        mvalues = [(2010, Finite 5)]\<rparr>)]\<rparr>)])) \<and>
   populateFromAuthorityByYearCSV example_sv
      (''code,2010,2011'' @ CHR 0x0A # ''W1,5,6'' @ CHR 0x0A # ''W2,,5'')
      example_year_cols None None None []
    = (Some (RuntimeError ''Malformed file!''),
       [(''W1'', \<lparr>localAuthorityCode = ''W1'', names = [],
                  measures = [(''pop'', \<lparr>codename = ''pop'', label = ''Population'',
                     mvalues = [(2010, Finite 5), (2011, Finite 6)]\<rparr>)]\<rparr>)]) \<and>
   (\<exists>k \<le> 2.
      for_each (authorityByYear_row example_sv example_year_cols None None None
                  [''code'', ''2010'', ''2011''])
        (take k [''W1,5,6'', ''W2,,5'']) []
       = (None,
          [(''W1'', \<lparr>localAuthorityCode = ''W1'', names = [],
                     measures = [(''pop'', \<lparr>codename = ''pop'', label = ''Population'',
                        mvalues = [(2010, Finite 5), (2011, Finite 6)]\<rparr>)]\<rparr>)]))"
proof -
  let ?csv = "''code,eng,cym'' @ CHR 0x0A # ''W1,Foo,Bar'' @ CHR 0x0A # ''W2,Baz''"
  let ?wide = "''code,2010,2011'' @ CHR 0x0A # ''W1,5,6'' @ CHR 0x0A # ''W2,,5''"
  let ?parse = "example_parse [example_record ''W1'' ''2010'', example_record ''W2'' ''next'']"
  let ?e = "RuntimeError ''Malformed file!''"
  let ?s1 = "[(''W1'', \<lparr>localAuthorityCode = ''W1'',
      names = [(''cym'', ''Bar''), (''eng'', ''Foo'')], measures = []\<rparr>)]"
  let ?s2 = "[(''W1'', \<lparr>localAuthorityCode = ''W1'', names = [(''eng'', ''Foo'')],
      measures = [(''pop'', \<lparr>codename = ''pop'', label = ''Population'',
        mvalues = [(2010 :: 32 word, Finite 5)]\<rparr>)]\<rparr>)]"
  let ?s3 = "[(''W1'', \<lparr>localAuthorityCode = ''W1'', names = [],
      measures = [(''pop'', \<lparr>codename = ''pop'', label = ''Population'',
        mvalues = [(2010 :: 32 word, Finite 5), (2011, Finite 6)]\<rparr>)]\<rparr>)]"
  have h1: "populateFromAuthorityCodeCSV ?csv example_areas_cols None [] = (Some ?e, ?s1)"
    by (simp add: import_eval entity_eval lower_eval example_eval)
  have h2: "populateFromWelshStatsJSON ?parse example_sv [] example_json_cols None None None []
      = (Some ?e, ?s2)"
    by (simp add: import_eval entity_eval lower_eval parse_eval example_eval)
  have h3: "populateFromAuthorityByYearCSV example_sv ?wide example_year_cols None None None []
      = (Some ?e, ?s3) \<and> ?e \<noteq> Undefined"
    by (simp add: import_eval entity_eval lower_eval parse_eval example_eval)
  have l1: "tl (getlines CHR 0x0A ?csv) = [''W1,Foo,Bar'', ''W2,Baz'']"
    by (simp add: getlines_Nil getlines_Cons)
  have l3: "tl (getlines CHR 0x0A ?wide) = [''W1,5,6'', ''W2,,5'']"
    "getlines CHR '','' (hd (getlines CHR 0x0A ?wide)) = [''code'', ''2010'', ''2011'']"
    by (simp_all add: getlines_Nil getlines_Cons)
  note c = failed_import_keeps_whole_records
  from c [where content = ?csv and cols = example_areas_cols and af = None and areas = "[]"
      and e = ?e and areas' = ?s1, THEN conjunct1, rule_format, OF h1]
  have c1: "\<exists>k \<le> 2. for_each (authorityCode_row None) (take k [''W1,Foo,Bar'', ''W2,Baz'']) []
      = (None, ?s1)"
    by (simp only: l1) (simp add: numeral_2_eq_2)
  from c [where content = "[]" and cols = example_json_cols and af = None and areas = "[]"
      and e = ?e and areas' = ?s2 and parse = ?parse and sv = example_sv and mf = None
      and yf = None, THEN conjunct2, THEN conjunct1, rule_format, OF h2]
  have c2: "\<exists>rs. for_each (welshStats_record example_sv example_json_cols None None None) rs []
      = (None, ?s2)"
    by blast
  from c [where content = ?wide and cols = example_year_cols and af = None and areas = "[]"
      and e = ?e and areas' = ?s3 and sv = example_sv and mf = None and yf = None,
      THEN conjunct2, THEN conjunct2, rule_format, OF h3]
  have c3: "\<exists>k \<le> 2.
      for_each (authorityByYear_row example_sv example_year_cols None None None
                  [''code'', ''2010'', ''2011''])
        (take k [''W1,5,6'', ''W2,,5'']) [] = (None, ?s3)"
    by (simp only: l3) (simp add: numeral_2_eq_2)
  from h1 c1 h2 c2 h3 c3 show ?thesis by blast
qed

subsection \<open>The check of the stream\<close>

text \<open>
  Claim C7 says that \<^verbatim>\<open>populate\<close> fails with a distinct precondition failure, before
  any header is parsed, when the stream is unreadable, unopened or empty. For an empty
  stream it does not: such a stream is in a good state, the check passes, and the call
  fails in the importer, at the first read, with the error \<^verbatim>\<open>Malformed file!\<close> that
  malformed content raises.
\<close>

theorem populate_empty_stream_counterexample:
  "good \<lparr>eofbit = False, failbit = False, badbit = False, buf = ''''\<rparr> \<and>
   populate (\<lambda>s. None) example_sv \<lparr>eofbit = False, failbit = False, badbit = False, buf = ''''\<rparr>
     AuthorityCodeCSV example_areas_cols None None None []
     = (Some (RuntimeError ''Malformed file!''), []) \<and>
   populate (\<lambda>s. None) example_sv \<lparr>eofbit = False, failbit = False, badbit = False, buf = ''''\<rparr>
     WelshStatsJSON example_json_cols None None None []
     = (Some (RuntimeError ''Malformed file!''), []) \<and>
   populate (\<lambda>s. None) example_sv \<lparr>eofbit = False, failbit = False, badbit = False, buf = ''''\<rparr>
     AuthorityByYearCSV example_year_cols None None None []
     = (Some (RuntimeError ''Malformed file!''), []) \<and>
   RuntimeError ''Malformed file!'' \<noteq> RuntimeError ''Input stream is not good!''"
  by (simp add: populate_def good_def populateFromAuthorityCodeCSV_def
      populateFromWelshStatsJSON_def populateFromAuthorityByYearCSV_def getlines_Nil)

text \<open>
  Claim C7 as amended: when the state of the stream is not good (a failed open or read
  has set a flag), \<^verbatim>\<open>populate\<close> fails with the runtime error
  \<^verbatim>\<open>Input stream is not good!\<close> before any importer runs, whatever the data type, and
  the container is unchanged. A stream in a good state that holds no character passes
  the check; the call then fails with \<^verbatim>\<open>Malformed file!\<close>, in the first read of the two
  table importers or in the parser of the nested-record importer.
\<close>

theorem populate_stream_check:
  "(\<not> good strm \<longrightarrow>
      populate parse sv strm type cols af mf yf areas
        = (Some (RuntimeError ''Input stream is not good!''), areas)) \<and>
   (good strm \<and> buf strm = [] \<and> (type = AuthorityCodeCSV \<or> type = AuthorityByYearCSV) \<longrightarrow>
      populate parse sv strm type cols af mf yf areas
        = (Some (RuntimeError ''Malformed file!''), areas)) \<and>
   (good strm \<and> parse (buf strm) = None \<and> type = WelshStatsJSON \<longrightarrow>
      populate parse sv strm type cols af mf yf areas
        = (Some (RuntimeError ''Malformed file!''), areas))"
  by (auto simp: populate_def populateFromAuthorityCodeCSV_def
      populateFromWelshStatsJSON_def populateFromAuthorityByYearCSV_def getlines_Nil)

theorem populate_stream_check_witness:
  "\<not> good \<lparr>eofbit = False, failbit = True, badbit = False, buf = ''code,eng,cym''\<rparr> \<and>
   populate (example_parse []) example_sv
     \<lparr>eofbit = False, failbit = True, badbit = False, buf = ''code,eng,cym''\<rparr>
     AuthorityCodeCSV example_areas_cols None None None []
     = (Some (RuntimeError ''Input stream is not good!''), []) \<and>
   populate (example_parse []) example_sv
     \<lparr>eofbit = False, failbit = True, badbit = False, buf = ''code,eng,cym''\<rparr>
     WelshStatsJSON example_json_cols None None None []
     = (Some (RuntimeError ''Input stream is not good!''), []) \<and>
   populate (example_parse []) example_sv
     \<lparr>eofbit = False, failbit = True, badbit = False, buf = ''code,eng,cym''\<rparr>
     AuthorityByYearCSV example_year_cols None None None []
     = (Some (RuntimeError ''Input stream is not good!''), []) \<and>
   good \<lparr>eofbit = False, failbit = False, badbit = False, buf = ''''\<rparr> \<and>
   populate (example_parse []) example_sv
     \<lparr>eofbit = False, failbit = False, badbit = False, buf = ''''\<rparr>
     AuthorityCodeCSV example_areas_cols None None None []
     = (Some (RuntimeError ''Malformed file!''), [])"
proof -
  let ?bad = "\<lparr>eofbit = False, failbit = True, badbit = False, buf = ''code,eng,cym''\<rparr>"
  let ?empty = "\<lparr>eofbit = False, failbit = False, badbit = False, buf = ''''\<rparr>"
  have b: "\<not> good ?bad" by (simp add: good_def)
  have g: "good ?empty \<and> buf ?empty = [] \<and>
      (AuthorityCodeCSV = AuthorityCodeCSV \<or> AuthorityCodeCSV = AuthorityByYearCSV)"
    by (simp add: good_def)
  note c = populate_stream_check
  from c [where strm = ?bad, THEN conjunct1, rule_format, OF b]
  have 1: "populate parse sv ?bad type cols af mf yf areas
      = (Some (RuntimeError ''Input stream is not good!''), areas)" for parse sv type cols af mf yf areas .
  from c [where strm = ?empty and type = AuthorityCodeCSV, THEN conjunct2, THEN conjunct1,
      rule_format, OF g]
  have 2: "populate parse sv ?empty AuthorityCodeCSV cols af mf yf areas
      = (Some (RuntimeError ''Malformed file!''), areas)" for parse sv cols af mf yf areas .
  from b g 1 2 show ?thesis by simp
qed

subsection \<open>The year filter in the nested-record importer\<close>

text \<open>
  A record that passes the area and the measure filter and whose year the year filter
  rejects still gives its Area with the English name and an empty Measure, which
  \<^verbatim>\<open>setArea\<close> merges into the container.
\<close>

lemma welshStats_record_year_rejected:
  assumes "record_fields sv cols data = Inr (code, name, mc, mn, year, v)"
    and "checkFilter af code True (getExistingNames code areas @ [name])"
    and "checkFilter mf mc False []"
    and "checkFilter_year yf year = Inr False"
  shows "\<exists>a1 area. setName ''eng'' name (new_Area code) = (None, a1) \<and>
     setMeasure mc (new_Measure mc mn) a1 = (None, area) \<and>
     map_of (measures area) (stringToLower mc) = Some (new_Measure mc mn) \<and>
     welshStats_record sv cols af mf yf data areas = setArea code area areas"
proof -
  have eng: "languageMatch ''eng''"
    by (simp add: languageMatch_def is_letter_def)
  then obtain a1 where a1: "setName ''eng'' name (new_Area code) = (None, a1)"
    "measures a1 = []"
    by (simp add: setName_def new_Area_def)
  then have m: "setMeasure mc (new_Measure mc mn) a1 =
      (None, a1\<lparr>measures := [(stringToLower mc, new_Measure mc mn)]\<rparr>)"
    by (simp add: setMeasure_def Let_def)
  from assms a1 m show ?thesis
    by (simp add: welshStats_record_def)
qed

text \<open>
  Claim C6 says that a record whose year is outside the range of the year filter
  records no value. The importer asks \<^verbatim>\<open>checkFilter\<close>, which accepts every year up to
  the upper bound (see C1): with the filter \<open>(2010, 2012)\<close> a record of the year 2009 has
  its value recorded, while one of the year 2013 leaves the Area and an empty Measure.
\<close>

theorem welshStats_year_below_range_recorded:
  "populateFromWelshStatsJSON (example_parse [example_record ''W1'' ''2009'']) example_sv []
     example_json_cols None None (Some (2010, 2012)) []
   = (None,
      [(''W1'', \<lparr>localAuthorityCode = ''W1'', names = [(''eng'', ''Foo'')],
                 measures = [(''pop'', \<lparr>codename = ''pop'', label = ''Population'',
                    mvalues = [(2009, Finite 5)]\<rparr>)]\<rparr>)]) \<and>
   populateFromWelshStatsJSON (example_parse [example_record ''W1'' ''2013'']) example_sv []
     example_json_cols None None (Some (2010, 2012)) []
   = (None,
      [(''W1'', \<lparr>localAuthorityCode = ''W1'', names = [(''eng'', ''Foo'')],
                 measures = [(''pop'', \<lparr>codename = ''pop'', label = ''Population'',
                    mvalues = []\<rparr>)]\<rparr>)])"
  by (simp add: import_eval entity_eval lower_eval parse_eval example_eval)

subsection \<open>Blank cells of the wide table\<close>















end
